theory Spec2Isabelle
  imports Main "HOL-Library.Sublist"
begin

section \<open>Errors, outcomes and log entries\<close>

text \<open>
  Go errors are values.  An error of an external collaborator (the container daemon, the
  cluster API, the database, the file system, the HTTP transport) is \<open>NotFound\<close>,
  \<open>AlreadyExists\<close> or \<open>External msg\<close>.  \<open>Wrapped prefix e\<close> is
  \<^verbatim>\<open>fmt.Errorf("prefix: %w", e)\<close>.  The remaining constructors are the errors the
  manager builds with \<^verbatim>\<open>fmt.Errorf\<close> without a cause:
  \<open>FunctionNotFound id\<close> is \<^verbatim>\<open>function '%s' not found\<close>,
  \<open>NotRunningError id\<close> is \<^verbatim>\<open>function '%s' is not in a running state\<close>,
  \<open>WorkerNon200 status body\<close> is \<^verbatim>\<open>worker returned non-200 status: %s - %s\<close>.
\<close>

datatype error =
    NotFound
  | AlreadyExists
  | External string
  | Wrapped string error
  | FunctionNotFound string
  | NotRunningError string
  | WorkerNon200 string string

text \<open>
  \<^verbatim>\<open>client.IsErrNotFound\<close> (container daemon) and \<^verbatim>\<open>errors.IsNotFound\<close>
  (cluster API): the error, or the error it wraps, is the backend's "not found".
\<close>

fun IsNotFound :: "error \<Rightarrow> bool" where
  "IsNotFound NotFound = True"
| "IsNotFound (Wrapped p e) = IsNotFound e"
| "IsNotFound e = False"

text \<open>
  A Go call either returns or panics; a panic (an index or a slice bound out of range)
  unwinds the caller and is a result of its own.
\<close>

datatype 'a outcome = Returns 'a | Panics string

datatype level = InfoLevel | WarnLevel | ErrorLevel

datatype field = FStr string string | FInt string int

text \<open>One zerolog event: level, the attached error, the fields, the message.\<close>

datatype log_entry = Log level "error option" "field list" string

section \<open>ClusterBackend: the Kubernetes adapter\<close>

definition faasNamespace :: string where
  "faasNamespace = ''scadable-faas''"

definition appName :: string where
  "appName = ''faas-worker''"

datatype propagation = DeletePropagationForeground

text \<open>
  The delete requests the adapter sends through the clientset, each with its namespace and
  object name; the workload deletion carries the propagation policy of its
  \<^verbatim>\<open>DeleteOptions\<close>.
\<close>

datatype k8s_request =
    DeleteHPA string string
  | DeleteDeployment string string "propagation option"
  | DeleteService string string
  | DeleteConfigMap string string

text \<open>
  The cluster is an external collaborator: \<open>clientset\<close> answers a request in a cluster
  state \<open>'k\<close> with an optional error and the next cluster state.  The world of the adapter
  is the cluster state, the exchanges so far (request and answer, oldest first) and the
  adapter's log.
\<close>

type_synonym 'k clientset = "'k \<Rightarrow> k8s_request \<Rightarrow> error option \<times> 'k"

record 'k kube =
  cluster :: 'k
  exchanges :: "(k8s_request \<times> error option) list"
  klog :: "log_entry list"

definition k8s_call :: "'k clientset \<Rightarrow> 'k kube \<Rightarrow> k8s_request \<Rightarrow> error option \<times> 'k kube" where
  "k8s_call cs w req =
     (case cs (cluster w) req of
        (r, k') \<Rightarrow> (r, w\<lparr>cluster := k', exchanges := exchanges w @ [(req, r)]\<rparr>))"

definition k8s_log ::
  "'k kube \<Rightarrow> level \<Rightarrow> error option \<Rightarrow> field list \<Rightarrow> string \<Rightarrow> 'k kube" where
  "k8s_log w lvl err fs msg =
     w\<lparr>klog := klog w @ [Log lvl err (FStr ''adapter'' ''kubernetes'' # fs) msg]\<rparr>"

text \<open>\<^verbatim>\<open>err != nil && !errors.IsNotFound(err)\<close>\<close>

definition unexpected :: "error option \<Rightarrow> bool" where
  "unexpected r = (case r of None \<Rightarrow> False | Some e \<Rightarrow> \<not> IsNotFound e)"

text \<open>
  \<^verbatim>\<open>StopAndRemoveContainer\<close> of the Kubernetes adapter.  The slice expression
  \<^verbatim>\<open>containerID[len(appName)+1:]\<close> panics when the handle is shorter than
  \<^verbatim>\<open>len(appName)+1\<close>; there is no guard before it.
\<close>

definition k8s_StopAndRemoveContainer ::
  "'k clientset \<Rightarrow> 'k kube \<Rightarrow> string \<Rightarrow> error option outcome \<times> 'k kube" where
  "k8s_StopAndRemoveContainer cs w containerID =
     (let deploymentName = containerID in
      if length containerID < length appName + 1
      then (Panics ''slice bounds out of range'', w)
      else
        (let funcID = drop (length appName + 1) containerID;
             serviceName = ''service-'' @ funcID;
             configMapName = ''handler-code-'' @ funcID;
             hpaName = ''hpa-'' @ funcID
         in
         (case k8s_call cs w (DeleteHPA faasNamespace hpaName) of (r1, w1) \<Rightarrow>
         (let w2 = (if unexpected r1
                    then k8s_log w1 WarnLevel r1 [FStr ''hpa'' hpaName] ''failed to delete HPA''
                    else w1)
          in
         (case k8s_call cs w2
                 (DeleteDeployment faasNamespace deploymentName
                    (Some DeletePropagationForeground)) of
            (r2, w3) \<Rightarrow>
         if unexpected r2 then (Returns r2, w3)
         else
         (case k8s_call cs w3 (DeleteService faasNamespace serviceName) of (r3, w4) \<Rightarrow>
         if unexpected r3 then (Returns r3, w4)
         else
         (case k8s_call cs w4 (DeleteConfigMap faasNamespace configMapName) of (r4, w5) \<Rightarrow>
         if unexpected r4 then (Returns r4, w5)
         else
           (Returns None,
            k8s_log w5 InfoLevel None [FStr ''deployment'' deploymentName]
              ''deleted kubernetes resources''))))))))"

text \<open>
  A cluster that holds no object and answers every deletion with "not found", a cluster
  whose network-object deletion is refused, and one whose autoscaling-policy deletion is
  refused.
\<close>

definition absent_cluster :: "unit clientset" where
  "absent_cluster k req = (Some NotFound, k)"

definition service_refusing_cluster :: "unit clientset" where
  "service_refusing_cluster k req =
     (case req of
        DeleteService ns n \<Rightarrow> (Some (External ''services is forbidden''), k)
      | _ \<Rightarrow> (None, k))"

definition hpa_refusing_cluster :: "unit clientset" where
  "hpa_refusing_cluster k req =
     (case req of
        DeleteHPA ns n \<Rightarrow> (Some (External ''horizontalpodautoscalers is forbidden''), k)
      | _ \<Rightarrow> (None, k))"

definition kube0 :: "unit kube" where
  "kube0 = \<lparr>cluster = (), exchanges = [], klog = []\<rparr>"

section \<open>Library functions used by the adapters and the manager\<close>

text \<open>
  \<^verbatim>\<open>strconv.Atoi\<close>: an optional sign and at least one decimal digit.  A syntax error
  gives 0 and an error; a value outside the 64-bit \<^verbatim>\<open>int\<close> gives the nearest bound
  and an error.
\<close>

definition is_digit :: "char \<Rightarrow> bool" where
  "is_digit c = (c \<in> set ''0123456789'')"

definition digit_val :: "char \<Rightarrow> nat" where
  "digit_val c = of_char c - 48"

fun digits_val :: "nat \<Rightarrow> string \<Rightarrow> nat" where
  "digits_val n [] = n"
| "digits_val n (c # cs) = digits_val (n * 10 + digit_val c) cs"

definition strconv_Atoi :: "string \<Rightarrow> int \<times> error option" where
  "strconv_Atoi s =
     (let neg = (s \<noteq> [] \<and> hd s = CHR ''-'');
          ds = (if s \<noteq> [] \<and> (hd s = CHR ''-'' \<or> hd s = CHR ''+'') then tl s else s)
      in if ds = [] \<or> \<not> list_all is_digit ds
         then (0, Some (External ''strconv.Atoi: invalid syntax''))
         else
           let n = int (digits_val 0 ds); v = (if neg then - n else n)
           in if v > 2 ^ 63 - 1 then (2 ^ 63 - 1, Some (External ''strconv.Atoi: value out of range''))
              else if v < - (2 ^ 63) then (- (2 ^ 63), Some (External ''strconv.Atoi: value out of range''))
              else (v, None))"

text \<open>The verb \<^verbatim>\<open>%d\<close> of \<^verbatim>\<open>fmt.Sprintf\<close>: the decimal digits, after a minus sign
  for a negative number.\<close>

definition digit_char :: "nat \<Rightarrow> char" where
  "digit_char d = ''0123456789'' ! d"

function itoa_nat :: "nat \<Rightarrow> string" where
  "itoa_nat n = (if n < 10 then [digit_char n] else itoa_nat (n div 10) @ [digit_char (n mod 10)])"
  by pat_completeness auto
termination
  by (relation "measure id") auto

declare itoa_nat.simps [simp del]

definition itoa :: "int \<Rightarrow> string" where
  "itoa i = (if i < 0 then CHR ''-'' # itoa_nat (nat (- i)) else itoa_nat (nat i))"

text \<open>
  The verb \<^verbatim>\<open>%q\<close> applied to a string is \<^verbatim>\<open>strconv.Quote\<close>: the string between
  double quotes, in Go syntax.  A byte below 0x80 is a character of its own: the double quote
  and the backslash get a backslash, a printable character (0x20 to 0x7E) stands for
  itself, seven control characters have a letter escape and every other one is written
  \<^verbatim>\<open>\x\<close> with two hexadecimal digits.  A maximal run of bytes from 0x80 on is decoded as
  UTF-8 and escaped by the tables of \<^verbatim>\<open>unicode.IsPrint\<close>; that part is the parameter
  \<open>hi\<close>.
\<close>

definition hex_char :: "nat \<Rightarrow> char" where
  "hex_char d = ''0123456789abcdef'' ! d"

definition quote_ascii :: "char \<Rightarrow> string" where
  "quote_ascii c =
     (if c = CHR 0x22 \<or> c = CHR 0x5C then [CHR 0x5C, c]
      else if 0x20 \<le> (of_char c :: nat) \<and> (of_char c :: nat) < 0x7F then [c]
      else if c = CHR 0x07 then [CHR 0x5C, CHR ''a'']
      else if c = CHR 0x08 then [CHR 0x5C, CHR ''b'']
      else if c = CHR 0x0C then [CHR 0x5C, CHR ''f'']
      else if c = CHR 0x0A then [CHR 0x5C, CHR ''n'']
      else if c = CHR 0x0D then [CHR 0x5C, CHR ''r'']
      else if c = CHR 0x09 then [CHR 0x5C, CHR ''t'']
      else if c = CHR 0x0B then [CHR 0x5C, CHR ''v'']
      else [CHR 0x5C, CHR ''x'', hex_char (of_char c div 16), hex_char (of_char c mod 16)])"

definition is_ascii :: "char \<Rightarrow> bool" where
  "is_ascii c = ((of_char c :: nat) < 0x80)"

function quote_runes :: "(string \<Rightarrow> string) \<Rightarrow> string \<Rightarrow> string" where
  "quote_runes hi [] = []"
| "quote_runes hi (c # cs) =
     (if is_ascii c then quote_ascii c @ quote_runes hi cs
      else hi (c # takeWhile (\<lambda>x. \<not> is_ascii x) cs)
           @ quote_runes hi (dropWhile (\<lambda>x. \<not> is_ascii x) cs))"
  by pat_completeness auto
termination
  by (relation "measure (\<lambda>(hi, s). length s)") (auto simp: length_dropWhile_le less_Suc_eq_le)

definition strconv_Quote :: "(string \<Rightarrow> string) \<Rightarrow> string \<Rightarrow> string" where
  "strconv_Quote hi s = [CHR 0x22] @ quote_runes hi s @ [CHR 0x22]"

section \<open>ContainerBackend: the Docker adapter\<close>

text \<open>\<^verbatim>\<open>functions.RunResult\<close>: the outcome of running a worker.\<close>

record RunResult =
  rr_ContainerID :: string
  rr_HostPort :: int

text \<open>The fields of \<^verbatim>\<open>config.Config\<close> that the adapters and the manager read.\<close>

record Config =
  WorkerImage :: string
  FunctionStorageDir :: string

text \<open>\<^verbatim>\<open>nat.PortBinding\<close>; the host port is a string.\<close>

record PortBinding =
  HostIP :: string
  pb_HostPort :: string

type_synonym PortMap = "string \<rightharpoonup> PortBinding list"

record RemoveOptions =
  Force :: bool
  RemoveVolumes :: bool

text \<open>The arguments of \<^verbatim>\<open>ContainerCreate\<close>: container config, host config and name.\<close>

record ContainerSpec =
  Image :: string
  Env :: "string list"
  ExposedPorts :: "string list"
  Binds :: "string list"
  PortBindings :: "(string \<times> PortBinding list) list"
  Name :: string

text \<open>
  The Docker daemon is an external collaborator with a state \<open>'d\<close>.  Each call of the
  SDK client answers in a daemon state and gives the next one.  \<open>ContainerInspect\<close>
  answers with \<^verbatim>\<open>NetworkSettings.Ports\<close>, the only part of the inspection that is read.
\<close>

record 'd docker_cli =
  ImageInspectWithRaw :: "'d \<Rightarrow> string \<Rightarrow> error option \<times> 'd"
  ImagePull :: "'d \<Rightarrow> string \<Rightarrow> string \<Rightarrow> error option \<times> 'd"
  ContainerRemove :: "'d \<Rightarrow> string \<Rightarrow> RemoveOptions \<Rightarrow> error option \<times> 'd"
  ContainerCreate :: "'d \<Rightarrow> ContainerSpec \<Rightarrow> (error + string) \<times> 'd"
  ContainerStart :: "'d \<Rightarrow> string \<Rightarrow> error option \<times> 'd"
  ContainerInspect :: "'d \<Rightarrow> string \<Rightarrow> (error + PortMap) \<times> 'd"

record 'd Client =
  cli :: "'d docker_cli"
  docker_cfg :: Config
  authHeader :: string

record 'd dockerd =
  daemon :: 'd
  dlog :: "log_entry list"

definition docker_log ::
  "'d dockerd \<Rightarrow> level \<Rightarrow> error option \<Rightarrow> field list \<Rightarrow> string \<Rightarrow> 'd dockerd" where
  "docker_log w lvl err fs msg =
     w\<lparr>dlog := dlog w @ [Log lvl err (FStr ''adapter'' ''docker'' # fs) msg]\<rparr>"

definition ensureImage :: "'d Client \<Rightarrow> 'd dockerd \<Rightarrow> string \<Rightarrow> error option \<times> 'd dockerd" where
  "ensureImage c w img =
     (case ImageInspectWithRaw (cli c) (daemon w) img of
        (None, d1) \<Rightarrow> (None, w\<lparr>daemon := d1\<rparr>)
      | (Some err, d1) \<Rightarrow>
          (if \<not> IsNotFound err then (Some (Wrapped ''image inspect'' err), w\<lparr>daemon := d1\<rparr>)
           else
             (let w1 = docker_log (w\<lparr>daemon := d1\<rparr>) InfoLevel None [FStr ''image'' img]
                         ''pulling image from registry''
              in (case ImagePull (cli c) (daemon w1) img (authHeader c) of
                    (Some err, d2) \<Rightarrow> (Some (Wrapped ''image pull'' err), w1\<lparr>daemon := d2\<rparr>)
                  | (None, d2) \<Rightarrow> (None, w1\<lparr>daemon := d2\<rparr>)))))"

text \<open>
  \<^verbatim>\<open>RunWorker\<close> of the Docker adapter.  The expression
  \<^verbatim>\<open>inspect.NetworkSettings.Ports["8000/tcp"][0]\<close> reads a missing key as the nil
  slice and panics on an empty slice; the error of \<^verbatim>\<open>strconv.Atoi\<close> is discarded.
\<close>

definition docker_RunWorker ::
  "'d Client \<Rightarrow> 'd dockerd \<Rightarrow> string \<Rightarrow> string \<Rightarrow> string
     \<Rightarrow> (error + RunResult) outcome \<times> 'd dockerd" where
  "docker_RunWorker c w funcID codePath handlerPath =
     (let name = ''faas-worker-'' @ funcID in
      (case ensureImage c w (WorkerImage (docker_cfg c)) of
         (Some err, w1) \<Rightarrow> (Returns (Inl err), w1)
       | (None, w1) \<Rightarrow>
      (case ContainerRemove (cli c) (daemon w1) name \<lparr>Force = True, RemoveVolumes = False\<rparr> of
         (ignored, d2) \<Rightarrow>
      (case ContainerCreate (cli c) d2
              \<lparr>Image = WorkerImage (docker_cfg c),
               Env = [''HANDLER_FUNCTION='' @ handlerPath],
               ExposedPorts = [''8000/tcp''],
               Binds = [codePath @ '':/app/function''],
               PortBindings = [(''8000/tcp'', [\<lparr>HostIP = ''0.0.0.0'', pb_HostPort = []\<rparr>])],
               Name = name\<rparr> of
         (Inl err, d3) \<Rightarrow> (Returns (Inl (Wrapped ''docker create'' err)), w1\<lparr>daemon := d3\<rparr>)
       | (Inr respID, d3) \<Rightarrow>
      (case ContainerStart (cli c) d3 respID of
         (Some err, d4) \<Rightarrow> (Returns (Inl (Wrapped ''docker start'' err)), w1\<lparr>daemon := d4\<rparr>)
       | (None, d4) \<Rightarrow>
      (case ContainerInspect (cli c) d4 respID of
         (Inl err, d5) \<Rightarrow> (Returns (Inl (Wrapped ''docker inspect'' err)), w1\<lparr>daemon := d5\<rparr>)
       | (Inr ports, d5) \<Rightarrow>
      (case (case ports ''8000/tcp'' of None \<Rightarrow> [] | Some bs \<Rightarrow> bs) of
         [] \<Rightarrow> (Panics ''index out of range [0] with length 0'', w1\<lparr>daemon := d5\<rparr>)
       | b # bs \<Rightarrow>
           (let hostPortStr = pb_HostPort b;
                hostPort = fst (strconv_Atoi hostPortStr)
            in (Returns (Inr \<lparr>rr_ContainerID = respID, rr_HostPort = hostPort\<rparr>),
                docker_log (w1\<lparr>daemon := d5\<rparr>) InfoLevel None
                  [FStr ''container_id'' respID, FStr ''function_id'' funcID,
                   FInt ''host_port'' hostPort]
                  ''worker container started'')))))))))"

text \<open>\<^verbatim>\<open>StopAndRemoveContainer\<close> of the Docker adapter.\<close>

definition docker_StopAndRemoveContainer ::
  "'d Client \<Rightarrow> 'd dockerd \<Rightarrow> string \<Rightarrow> error option \<times> 'd dockerd" where
  "docker_StopAndRemoveContainer c w containerID =
     (if containerID = [] then (None, w)
      else
        (let w1 = docker_log w InfoLevel None [FStr ''container_id'' containerID]
                    ''stopping and removing container''
         in (case ContainerRemove (cli c) (daemon w1) containerID
                    \<lparr>Force = True, RemoveVolumes = True\<rparr> of
               (err, d1) \<Rightarrow>
                 if unexpected err then (err, w1\<lparr>daemon := d1\<rparr>) else (None, w1\<lparr>daemon := d1\<rparr>))))"

section \<open>The Lifecycle Manager\<close>

subsection \<open>Records, the orchestrator interface and the external world\<close>

text \<open>\<^verbatim>\<open>functions.Function\<close>, one row of the record store; \<open>ID\<close> is the primary key.\<close>

record Function =
  ID :: string
  FunctionName :: string
  HandlerPath :: string
  CodePath :: string
  ContainerID :: string
  ContainerName :: string
  HostPort :: int
  Status :: string
  CreatedAt :: nat

text \<open>
  The interface \<^verbatim>\<open>Orchestrator\<close>: both methods answer in a backend state \<open>'b\<close> and
  give the next backend state.  A call returns the values of its Go signature or panics
  inside the backend.  The manager has no \<^verbatim>\<open>recover\<close>: a panic of a call unwinds the
  operation that made it, which then ends with that panic and does nothing more.
\<close>

record 'b Orchestrator =
  RunWorker :: "'b \<Rightarrow> string \<Rightarrow> string \<Rightarrow> string \<Rightarrow> (error + RunResult) outcome \<times> 'b"
  StopAndRemoveContainer :: "'b \<Rightarrow> string \<Rightarrow> error option outcome \<times> 'b"

record 'b Manager =
  orchestrator :: "'b Orchestrator"
  cfg :: Config

datatype db_request =
    DbCreate Function
  | DbSave Function
  | DbFirst string
  | DbFind
  | DbWhereStatusFind string
  | DbDelete Function

datatype fs_request =
    MkdirAll string
  | Create string
  | Copy string string
  | RemoveAll string

record http_request =
  Method :: string
  URL :: string
  Header :: "(string \<times> string) list"
  Body :: string

text \<open>
  What \<^verbatim>\<open>http.DefaultClient.Do\<close> and the reading of the body give: a transport error,
  or a response with its status code, its status line and the body or the error of reading
  it.
\<close>

datatype http_reply =
    TransportError error
  | Response int string "error + string"

text \<open>
  What the manager does to its collaborators, oldest first: the calls of the orchestrator
  with their answers, the HTTP requests sent, the log entries written.
\<close>

datatype event =
    CalledRunWorker string string string "(error + RunResult) outcome"
  | CalledStopAndRemoveContainer string "error option outcome"
  | SentHTTP http_request
  | Logged log_entry

text \<open>
  The world the manager runs in.  The record store is a table \<open>rows\<close>, in the order in
  which the database lists it, behind a database that may refuse any request, a read as
  well as a write: \<open>db_fault\<close> gives the error of a refused request, and a refused
  request changes nothing.  The code storage is the files by path, behind a file system
  that may refuse any request (\<open>fs_fault\<close>).  Which requests are refused is given with
  the world and no operation changes it.  \<open>backend\<close> is the state of the orchestrator's
  backend, \<open>worker\<close> is what answers an HTTP request.
\<close>

record 'b world =
  rows :: "Function list"
  db_fault :: "db_request \<Rightarrow> error option"
  files :: "string \<rightharpoonup> string"
  fs_fault :: "fs_request \<Rightarrow> error option"
  backend :: 'b
  worker :: "http_request \<Rightarrow> http_reply"
  events :: "event list"

text \<open>
  Two functions of the Go library are parameters: the escaping of bytes from 0x80 on by
  \<^verbatim>\<open>strconv.Quote\<close>, and the decoding by \<^verbatim>\<open>json.Unmarshal\<close> of a response body into
  \<^verbatim>\<open>struct { Result json.RawMessage }\<close>, which gives the raw \<open>result\<close> member.
\<close>

record golib =
  quote_non_ascii :: "string \<Rightarrow> string"
  unmarshal_result :: "string \<Rightarrow> error + string"

subsection \<open>The record store (gorm)\<close>

text \<open>
  \<^verbatim>\<open>Create\<close> inserts a row and fails on a primary key that is taken.  \<^verbatim>\<open>Save\<close>
  writes every field of the row with the same primary key, or inserts.  \<^verbatim>\<open>First\<close>
  gives the row with the key or the error "record not found".  \<^verbatim>\<open>Delete\<close> removes
  the row with the key of the record.
\<close>

definition db_Create :: "'b world \<Rightarrow> Function \<Rightarrow> error option \<times> 'b world" where
  "db_Create w fn =
     (case db_fault w (DbCreate fn) of
        Some e \<Rightarrow> (Some e, w)
      | None \<Rightarrow>
          if list_ex (\<lambda>r. ID r = ID fn) (rows w) then (Some AlreadyExists, w)
          else (None, w\<lparr>rows := rows w @ [fn]\<rparr>))"

definition db_Save :: "'b world \<Rightarrow> Function \<Rightarrow> error option \<times> 'b world" where
  "db_Save w fn =
     (case db_fault w (DbSave fn) of
        Some e \<Rightarrow> (Some e, w)
      | None \<Rightarrow>
          (None, w\<lparr>rows := (if list_ex (\<lambda>r. ID r = ID fn) (rows w)
                             then map (\<lambda>r. if ID r = ID fn then fn else r) (rows w)
                             else rows w @ [fn])\<rparr>))"

definition db_First :: "'b world \<Rightarrow> string \<Rightarrow> error + Function" where
  "db_First w functionID =
     (case db_fault w (DbFirst functionID) of
        Some e \<Rightarrow> Inl e
      | None \<Rightarrow>
          (case find (\<lambda>r. ID r = functionID) (rows w) of
             None \<Rightarrow> Inl NotFound
           | Some fn \<Rightarrow> Inr fn))"

definition db_Find :: "'b world \<Rightarrow> error + Function list" where
  "db_Find w = (case db_fault w DbFind of Some e \<Rightarrow> Inl e | None \<Rightarrow> Inr (rows w))"

definition db_Where_Status_Find :: "'b world \<Rightarrow> string \<Rightarrow> error + Function list" where
  "db_Where_Status_Find w st =
     (case db_fault w (DbWhereStatusFind st) of
        Some e \<Rightarrow> Inl e
      | None \<Rightarrow> Inr (filter (\<lambda>r. Status r = st) (rows w)))"

definition db_Delete :: "'b world \<Rightarrow> Function \<Rightarrow> error option \<times> 'b world" where
  "db_Delete w fn =
     (case db_fault w (DbDelete fn) of
        Some e \<Rightarrow> (Some e, w)
      | None \<Rightarrow> (None, w\<lparr>rows := filter (\<lambda>r. ID r \<noteq> ID fn) (rows w)\<rparr>))"

subsection \<open>The code storage (os, io, path/filepath)\<close>

text \<open>
  \<^verbatim>\<open>filepath.Join\<close> of two elements, on a system whose separator is the slash: the
  elements from the first non-empty one on are joined with a slash and the result is
  cleaned; two empty elements give the empty string.  \<^verbatim>\<open>filepath.Clean\<close> reads the
  path element by element: an empty element and the element \<open>.\<close> are dropped, the
  element \<open>..\<close> removes the element kept last, is dropped at the start of a rooted path
  and is kept at the start of any other path; the elements kept are joined with single
  slashes, behind a slash when the path is rooted, and the empty result is \<open>.\<close>.
\<close>

fun split_slash :: "string \<Rightarrow> string list" where
  "split_slash [] = [[]]"
| "split_slash (c # cs) =
     (if c = CHR ''/'' then [] # split_slash cs
      else (case split_slash cs of [] \<Rightarrow> [[c]] | e # es \<Rightarrow> (c # e) # es))"

text \<open>\<open>kept\<close> holds the elements kept so far, the last one first.\<close>

fun clean_elements :: "bool \<Rightarrow> string list \<Rightarrow> string list \<Rightarrow> string list" where
  "clean_elements rooted kept [] = rev kept"
| "clean_elements rooted kept (e # es) =
     (if e = [] \<or> e = ''.'' then clean_elements rooted kept es
      else if e = ''..'' then
        (case kept of
           [] \<Rightarrow> if rooted then clean_elements rooted kept es
                 else clean_elements rooted [e] es
         | k # ks \<Rightarrow> if k = ''..'' then clean_elements rooted (e # kept) es
                     else clean_elements rooted ks es)
      else clean_elements rooted (e # kept) es)"

fun join_slash :: "string list \<Rightarrow> string" where
  "join_slash [] = []"
| "join_slash [e] = e"
| "join_slash (e # es) = e @ ''/'' @ join_slash es"

definition filepath_Clean :: "string \<Rightarrow> string" where
  "filepath_Clean p =
     (if p = [] then ''.''
      else
        (let rooted = (hd p = CHR ''/'');
             out = (if rooted then ''/'' else []) @
                   join_slash (clean_elements rooted [] (split_slash p))
         in if out = [] then ''.'' else out))"

definition filepath_Join :: "string \<Rightarrow> string \<Rightarrow> string" where
  "filepath_Join d f =
     (if d = [] then (if f = [] then [] else filepath_Clean f)
      else filepath_Clean (d @ ''/'' @ f))"

text \<open>
  Of the file system only the files and their contents are kept: \<^verbatim>\<open>os.Create\<close>
  gives an empty file, \<^verbatim>\<open>io.Copy\<close> fills it, \<^verbatim>\<open>os.RemoveAll\<close> removes the path
  and everything below it.
\<close>

definition os_MkdirAll :: "'b world \<Rightarrow> string \<Rightarrow> error option \<times> 'b world" where
  "os_MkdirAll w p = (fs_fault w (MkdirAll p), w)"

definition os_Create :: "'b world \<Rightarrow> string \<Rightarrow> error option \<times> 'b world" where
  "os_Create w p =
     (case fs_fault w (Create p) of
        Some e \<Rightarrow> (Some e, w)
      | None \<Rightarrow> (None, w\<lparr>files := (files w)(p \<mapsto> [])\<rparr>))"

definition io_Copy :: "'b world \<Rightarrow> string \<Rightarrow> string \<Rightarrow> error option \<times> 'b world" where
  "io_Copy w p code =
     (case fs_fault w (Copy p code) of
        Some e \<Rightarrow> (Some e, w)
      | None \<Rightarrow> (None, w\<lparr>files := (files w)(p \<mapsto> code)\<rparr>))"

definition os_RemoveAll :: "'b world \<Rightarrow> string \<Rightarrow> error option \<times> 'b world" where
  "os_RemoveAll w p =
     (case fs_fault w (RemoveAll p) of
        Some e \<Rightarrow> (Some e, w)
      | None \<Rightarrow>
          (None, w\<lparr>files := (\<lambda>q. if q = p \<or> prefix (p @ ''/'') q then None else files w q)\<rparr>))"

subsection \<open>Calls of the orchestrator, the logger and the HTTP client\<close>

definition call_RunWorker ::
  "'b Manager \<Rightarrow> 'b world \<Rightarrow> string \<Rightarrow> string \<Rightarrow> string
     \<Rightarrow> (error + RunResult) outcome \<times> 'b world" where
  "call_RunWorker m w funcID codePath handlerPath =
     (case RunWorker (orchestrator m) (backend w) funcID codePath handlerPath of
        (r, b') \<Rightarrow>
          (r, w\<lparr>backend := b',
                events := events w @ [CalledRunWorker funcID codePath handlerPath r]\<rparr>))"

definition call_StopAndRemoveContainer ::
  "'b Manager \<Rightarrow> 'b world \<Rightarrow> string \<Rightarrow> error option outcome \<times> 'b world" where
  "call_StopAndRemoveContainer m w containerID =
     (case StopAndRemoveContainer (orchestrator m) (backend w) containerID of
        (r, b') \<Rightarrow>
          (r, w\<lparr>backend := b',
                events := events w @ [CalledStopAndRemoveContainer containerID r]\<rparr>))"

text \<open>The manager's logger carries the field \<^verbatim>\<open>component=function-manager\<close>.\<close>

definition lg :: "'b world \<Rightarrow> level \<Rightarrow> error option \<Rightarrow> field list \<Rightarrow> string \<Rightarrow> 'b world" where
  "lg w lvl err fs msg =
     w\<lparr>events := events w @
          [Logged (Log lvl err (FStr ''component'' ''function-manager'' # fs) msg)]\<rparr>"

text \<open>
  \<^verbatim>\<open>http.NewRequestWithContext\<close> parses the URL; of the URLs built by the manager,
  \<^verbatim>\<open>http://localhost:\<close> and a number, it refuses those whose port (the text after the
  last colon) is not made of decimal digits.
\<close>

definition after_last_colon :: "string \<Rightarrow> string" where
  "after_last_colon u = rev (takeWhile (\<lambda>c. c \<noteq> CHR '':'') (rev u))"

definition http_NewRequest :: "string \<Rightarrow> string \<Rightarrow> string \<Rightarrow> error + http_request" where
  "http_NewRequest method u body =
     (if \<not> list_all is_digit (after_last_colon u) then Inl (External ''invalid port after host'')
      else Inr \<lparr>Method = method, URL = u, Header = [], Body = body\<rparr>)"

definition http_Do :: "'b world \<Rightarrow> http_request \<Rightarrow> http_reply \<times> 'b world" where
  "http_Do w req = (worker w req, w\<lparr>events := events w @ [SentHTTP req]\<rparr>)"

subsection \<open>The operations of the manager\<close>

text \<open>
  \<^verbatim>\<open>AddFunction\<close>.  The identifier of \<^verbatim>\<open>rand.ID16()\<close> and the instant of
  \<^verbatim>\<open>time.Now()\<close> are arguments; \<open>code\<close> is what the reader delivers.  The code
  directory, the path of the handler file and the record built before provisioning are
  named, for the statements about them.
\<close>

definition codeDir_of :: "'b Manager \<Rightarrow> string \<Rightarrow> string" where
  "codeDir_of m funcID = filepath_Join (FunctionStorageDir (cfg m)) funcID"

definition codeFilePath_of :: "'b Manager \<Rightarrow> string \<Rightarrow> string" where
  "codeFilePath_of m funcID = filepath_Join (codeDir_of m funcID) ''handler.py''"

definition new_Function :: "'b Manager \<Rightarrow> string \<Rightarrow> nat \<Rightarrow> string \<Rightarrow> Function" where
  "new_Function m funcID now functionName =
     \<lparr>ID = funcID,
      FunctionName = functionName,
      HandlerPath = ''function.handler.'' @ functionName,
      CodePath = codeDir_of m funcID,
      ContainerID = [],
      ContainerName = ''faas-worker-'' @ funcID,
      HostPort = 0,
      Status = ''creating'',
      CreatedAt = now\<rparr>"

definition AddFunction ::
  "'b Manager \<Rightarrow> 'b world \<Rightarrow> string \<Rightarrow> nat \<Rightarrow> string \<Rightarrow> string
     \<Rightarrow> (error + Function) outcome \<times> 'b world" where
  "AddFunction m w funcID now functionName code =
     (let codeDir = codeDir_of m funcID in
      (case os_MkdirAll w codeDir of
         (Some err, w1) \<Rightarrow> (Returns (Inl (Wrapped ''create function dir'' err)), w1)
       | (None, w1) \<Rightarrow>
      (let codeFilePath = codeFilePath_of m funcID in
      (case os_Create w1 codeFilePath of
         (Some err, w2) \<Rightarrow> (Returns (Inl (Wrapped ''create handler file'' err)), w2)
       | (None, w2) \<Rightarrow>
      (case io_Copy w2 codeFilePath code of
         (Some err, w3) \<Rightarrow> (Returns (Inl (Wrapped ''save handler code'' err)), w3)
       | (None, w3) \<Rightarrow>
      (let fn = new_Function m funcID now functionName in
      (case db_Create w3 fn of
         (Some err, w4) \<Rightarrow> (Returns (Inl (Wrapped ''db create function record'' err)), w4)
       | (None, w4) \<Rightarrow>
      (case call_RunWorker m w4 (ID fn) (CodePath fn) (HandlerPath fn) of
         (Panics p, w5) \<Rightarrow> (Panics p, w5)
       | (Returns (Inl err), w5) \<Rightarrow>
           (let w6 = lg w5 ErrorLevel (Some err) [FStr ''function_id'' (ID fn)]
                       ''failed to start container, rolling back'';
                fn1 = fn\<lparr>Status := ''error''\<rparr>
            in (case db_Save w6 fn1 of
                  (ignored, w7) \<Rightarrow> (Returns (Inl (Wrapped ''start worker container'' err)), w7)))
       | (Returns (Inr runResult), w5) \<Rightarrow>
           (let fn1 = fn\<lparr>ContainerID := rr_ContainerID runResult,
                         HostPort := rr_HostPort runResult,
                         Status := ''running''\<rparr>
            in (case db_Save w5 fn1 of
                  (Some err, w6) \<Rightarrow>
                    (let w7 = lg w6 ErrorLevel (Some err) [FStr ''function_id'' (ID fn1)]
                                ''failed to save container details to db''
                     in (case call_StopAndRemoveContainer m w7 (ContainerID fn1) of
                           (Panics p, w8) \<Rightarrow> (Panics p, w8)
                         | (Returns ignored, w8) \<Rightarrow> (Returns (Inl err), w8)))
                | (None, w6) \<Rightarrow> (Returns (Inr fn1), w6)))))))))))"

text \<open>\<^verbatim>\<open>ExecuteFunction\<close>; any error of the lookup is reported as "not found".\<close>

definition ExecuteFunction ::
  "golib \<Rightarrow> 'b Manager \<Rightarrow> 'b world \<Rightarrow> string \<Rightarrow> string \<Rightarrow> (error + string) \<times> 'b world" where
  \<open>ExecuteFunction lib m w functionID payload =
     (case db_First w functionID of
        Inl err \<Rightarrow> (Inl (FunctionNotFound functionID), w)
      | Inr fn \<Rightarrow>
     (if Status fn \<noteq> ''running'' \<or> HostPort fn = 0
      then (Inl (NotRunningError functionID), w)
      else
     (let workerURL = ''http://localhost:'' @ itoa (HostPort fn);
          reqBody = ''{"payload": '' @ strconv_Quote (quote_non_ascii lib) payload @ ''}''
      in
     (case http_NewRequest ''POST'' workerURL reqBody of
        Inl err \<Rightarrow> (Inl (Wrapped ''create request'' err), w)
      | Inr req0 \<Rightarrow>
     (let req = req0\<lparr>Header := [(''Content-Type'', ''application/json'')]\<rparr> in
     (case http_Do w req of
        (TransportError err, w1) \<Rightarrow> (Inl (Wrapped ''execute request to worker'' err), w1)
      | (Response code status (Inl err), w1) \<Rightarrow> (Inl (Wrapped ''read worker response'' err), w1)
      | (Response code status (Inr bodyBytes), w1) \<Rightarrow>
     (if code \<noteq> 200 then (Inl (WorkerNon200 status bodyBytes), w1)
      else
     (case unmarshal_result lib bodyBytes of
        Inl err \<Rightarrow> (Inl (Wrapped ''unmarshal worker response'' err), w1)
      | Inr result \<Rightarrow> (Inr result, w1)))))))))\<close>

definition ListFunctions :: "'b world \<Rightarrow> error + Function list" where
  "ListFunctions w = db_Find w"

text \<open>\<^verbatim>\<open>RemoveFunction\<close>; any error of the lookup is reported as "not found".\<close>

definition RemoveFunction ::
  "'b Manager \<Rightarrow> 'b world \<Rightarrow> string \<Rightarrow> error option outcome \<times> 'b world" where
  "RemoveFunction m w functionID =
     (case db_First w functionID of
        Inl err \<Rightarrow> (Returns (Some (FunctionNotFound functionID)), w)
      | Inr fn \<Rightarrow>
     (case call_StopAndRemoveContainer m w (ContainerID fn) of
        (Panics p, w1) \<Rightarrow> (Panics p, w1)
      | (Returns r1, w1) \<Rightarrow>
     (let w2 = (case r1 of
                  Some err \<Rightarrow> lg w1 WarnLevel (Some err) [FStr ''function_id'' functionID]
                                ''failed to stop container, proceeding with cleanup''
                | None \<Rightarrow> w1)
      in
     (case os_RemoveAll w2 (CodePath fn) of (r2, w3) \<Rightarrow>
     (let w4 = (case r2 of
                  Some err \<Rightarrow> lg w3 ErrorLevel (Some err) [FStr ''path'' (CodePath fn)]
                                ''failed to delete function code directory''
                | None \<Rightarrow> w3)
      in
     (case db_Delete w4 fn of
        (Some err, w5) \<Rightarrow>
          (Returns (Some (Wrapped ''failed to delete function record from db'' err)), w5)
      | (None, w5) \<Rightarrow>
          (Returns None, lg w5 InfoLevel None [FStr ''function_id'' functionID]
                           ''function removed successfully'')))))))"

text \<open>
  The body of the loop of \<^verbatim>\<open>RestartRunningFunctions\<close>, for one record, and the loop;
  a panic of the body ends the loop.
\<close>

definition restart_one :: "'b Manager \<Rightarrow> 'b world \<Rightarrow> Function \<Rightarrow> unit outcome \<times> 'b world" where
  "restart_one m w fn =
     (let w1 = lg w InfoLevel None [FStr ''function_id'' (ID fn)] ''restarting function'' in
     (case call_RunWorker m w1 (ID fn) (CodePath fn) (HandlerPath fn) of
        (Panics p, w2) \<Rightarrow> (Panics p, w2)
      | (Returns res, w2) \<Rightarrow>
     (case (case res of
              Inl err \<Rightarrow>
                (fn\<lparr>Status := ''stopped''\<rparr>,
                 lg w2 ErrorLevel (Some err) [FStr ''function_id'' (ID fn)]
                   ''failed to restart function container'')
            | Inr runResult \<Rightarrow>
                (fn\<lparr>ContainerID := rr_ContainerID runResult, HostPort := rr_HostPort runResult\<rparr>,
                 w2)) of
        (fn1, w3) \<Rightarrow>
     (case db_Save w3 fn1 of
        (Some err, w4) \<Rightarrow>
          (Returns (),
           lg w4 ErrorLevel (Some err) [FStr ''function_id'' (ID fn1)]
             ''failed to update function record on restart'')
      | (None, w4) \<Rightarrow> (Returns (), w4)))))"

fun restart_loop :: "'b Manager \<Rightarrow> 'b world \<Rightarrow> Function list \<Rightarrow> unit outcome \<times> 'b world" where
  "restart_loop m w [] = (Returns (), w)"
| "restart_loop m w (fn # fns) =
     (case restart_one m w fn of
        (Panics p, w1) \<Rightarrow> (Panics p, w1)
      | (Returns u, w1) \<Rightarrow> restart_loop m w1 fns)"

definition RestartRunningFunctions ::
  "'b Manager \<Rightarrow> 'b world \<Rightarrow> error option outcome \<times> 'b world" where
  "RestartRunningFunctions m w =
     (let w0 = lg w InfoLevel None [] ''restarting any previously running functions...'' in
      case db_Where_Status_Find w0 ''running'' of
        Inl err \<Rightarrow> (Returns (Some (Wrapped ''could not query running functions'' err)), w0)
      | Inr runningFunctions \<Rightarrow>
          (case restart_loop m w0 runningFunctions of
             (Panics p, w1) \<Rightarrow> (Panics p, w1)
           | (Returns u, w1) \<Rightarrow> (Returns None, w1)))"

text \<open>
  The body of the loop of \<^verbatim>\<open>CleanupAllFunctions\<close>, for one record, and the loop; a
  panic of the body ends the loop.
\<close>

definition cleanup_one :: "'b Manager \<Rightarrow> 'b world \<Rightarrow> Function \<Rightarrow> unit outcome \<times> 'b world" where
  "cleanup_one m w fn =
     (if Status fn = ''running''
      then (case call_StopAndRemoveContainer m w (ContainerID fn) of
              (Panics p, w1) \<Rightarrow> (Panics p, w1)
            | (Returns (Some err), w1) \<Rightarrow>
                (Returns (),
                 lg w1 ErrorLevel (Some err) [FStr ''function_id'' (ID fn)] ''failed during cleanup'')
            | (Returns None, w1) \<Rightarrow> (Returns (), w1))
      else (Returns (), w))"

fun cleanup_loop :: "'b Manager \<Rightarrow> 'b world \<Rightarrow> Function list \<Rightarrow> unit outcome \<times> 'b world" where
  "cleanup_loop m w [] = (Returns (), w)"
| "cleanup_loop m w (fn # fns) =
     (case cleanup_one m w fn of
        (Panics p, w1) \<Rightarrow> (Panics p, w1)
      | (Returns u, w1) \<Rightarrow> cleanup_loop m w1 fns)"

definition CleanupAllFunctions ::
  "'b Manager \<Rightarrow> 'b world \<Rightarrow> error option outcome \<times> 'b world" where
  "CleanupAllFunctions m w =
     (let w0 = lg w InfoLevel None [] ''cleaning up all function containers'' in
      case ListFunctions w0 of
        Inl err \<Rightarrow> (Returns (Some (Wrapped ''could not list functions for cleanup'' err)), w0)
      | Inr functions \<Rightarrow>
          (case cleanup_loop m w0 functions of
             (Panics p, w1) \<Rightarrow> (Panics p, w1)
           | (Returns u, w1) \<Rightarrow> (Returns None, w1)))"

subsection \<open>Reading the events\<close>

text \<open>
  The provisioning calls, the teardown calls, the HTTP requests and the log entries among
  the events.
\<close>

fun provisions ::
  "event list \<Rightarrow> (string \<times> string \<times> string \<times> (error + RunResult) outcome) list" where
  "provisions [] = []"
| "provisions (CalledRunWorker f c h r # es) = (f, c, h, r) # provisions es"
| "provisions (e # es) = provisions es"

fun teardowns :: "event list \<Rightarrow> (string \<times> error option outcome) list" where
  "teardowns [] = []"
| "teardowns (CalledStopAndRemoveContainer h r # es) = (h, r) # teardowns es"
| "teardowns (e # es) = teardowns es"

fun requests :: "event list \<Rightarrow> http_request list" where
  "requests [] = []"
| "requests (SentHTTP q # es) = q # requests es"
| "requests (e # es) = requests es"

fun logged :: "event list \<Rightarrow> log_entry list" where
  "logged [] = []"
| "logged (Logged l # es) = l # logged es"
| "logged (e # es) = logged es"

section \<open>The worker's reading of the request body\<close>

text \<open>
  The worker decodes the request body as JSON.  This is the decoding of a JSON string
  literal (RFC 8259) that the statements about the payload compare with: the characters
  between two double quotes, where a backslash introduces an escape and a bare double
  quote or a bare control character is an error.  The escapes \<^verbatim>\<open>\uXXXX\<close> are outside
  the part that is modelled and give no result.
\<close>

definition json_escape :: "char \<Rightarrow> char option" where
  "json_escape e =
     (if e = CHR 0x22 \<or> e = CHR 0x5C \<or> e = CHR ''/'' then Some e
      else if e = CHR ''b'' then Some (CHR 0x08)
      else if e = CHR ''f'' then Some (CHR 0x0C)
      else if e = CHR ''n'' then Some (CHR 0x0A)
      else if e = CHR ''r'' then Some (CHR 0x0D)
      else if e = CHR ''t'' then Some (CHR 0x09)
      else None)"

fun json_chars :: "string \<Rightarrow> string option" where
  "json_chars [] = Some []"
| "json_chars [c] =
     (if c = CHR 0x5C \<or> c = CHR 0x22 \<or> (of_char c :: nat) < 0x20 then None else Some [c])"
| "json_chars (c # e # cs) =
     (if c = CHR 0x5C
      then (case json_escape e of
              None \<Rightarrow> None
            | Some d \<Rightarrow> map_option ((#) d) (json_chars cs))
      else if c = CHR 0x22 \<or> (of_char c :: nat) < 0x20 then None
      else map_option ((#) c) (json_chars (e # cs)))"

definition json_string :: "string \<Rightarrow> string option" where
  "json_string s =
     (case s of
        [] \<Rightarrow> None
      | q # r \<Rightarrow>
          if q = CHR 0x22 \<and> r \<noteq> [] \<and> last r = CHR 0x22 then json_chars (butlast r) else None)"

text \<open>
  The bytes that \<^verbatim>\<open>strconv.Quote\<close> writes in a way a JSON reader decodes back: the
  printable ASCII characters and the five control characters with an escape letter common
  to Go and JSON.
\<close>

definition json_safe :: "char \<Rightarrow> bool" where
  "json_safe c =
     ((0x20 \<le> (of_char c :: nat) \<and> (of_char c :: nat) < 0x7F)
      \<or> c = CHR 0x08 \<or> c = CHR 0x09 \<or> c = CHR 0x0A \<or> c = CHR 0x0C \<or> c = CHR 0x0D)"

section \<open>Sample collaborators\<close>

text \<open>
  Three records, two running and one stopped; an orchestrator whose state counts the calls
  it has answered, which refuses to provision the functions \<open>f1\<close> and \<open>f9\<close>,
  provisions any other on a fresh port and answers every teardown with an error; a world
  whose database and file system accept every request and whose worker cannot be reached.
\<close>

definition fn1 :: Function where
  "fn1 = \<lparr>ID = ''f1'', FunctionName = ''echo'', HandlerPath = ''function.handler.echo'',
          CodePath = ''/tmp/faas_functions/f1'', ContainerID = ''c1'',
          ContainerName = ''faas-worker-f1'', HostPort = 32768, Status = ''running'',
          CreatedAt = 0\<rparr>"

definition fn2 :: Function where
  "fn2 = \<lparr>ID = ''f2'', FunctionName = ''sum'', HandlerPath = ''function.handler.sum'',
          CodePath = ''/tmp/faas_functions/f2'', ContainerID = ''c2'',
          ContainerName = ''faas-worker-f2'', HostPort = 32769, Status = ''stopped'',
          CreatedAt = 1\<rparr>"

definition fn3 :: Function where
  "fn3 = \<lparr>ID = ''f3'', FunctionName = ''echo'', HandlerPath = ''function.handler.echo'',
          CodePath = ''/tmp/faas_functions/f3'', ContainerID = ''c3'',
          ContainerName = ''faas-worker-f3'', HostPort = 32770, Status = ''running'',
          CreatedAt = 2\<rparr>"

definition flaky :: "nat Orchestrator" where
  "flaky =
     \<lparr>RunWorker = (\<lambda>b f c h.
        if f = ''f1'' \<or> f = ''f9''
        then (Returns (Inl (Wrapped ''docker create'' (External ''no space left''))), b + 1)
        else (Returns (Inr \<lparr>rr_ContainerID = ''new-'' @ f, rr_HostPort = 40000 + int b\<rparr>), b + 1)),
      StopAndRemoveContainer = (\<lambda>b h. (Returns (Some (External ''daemon unreachable'')), b + 1))\<rparr>"

definition mgr0 :: "nat Manager" where
  "mgr0 = \<lparr>orchestrator = flaky,
            cfg = \<lparr>WorkerImage = ''worker-faas:latest'',
                   FunctionStorageDir = ''/tmp/faas_functions''\<rparr>\<rparr>"

definition world0 :: "nat world" where
  "world0 = \<lparr>rows = [fn1, fn2, fn3],
              db_fault = (\<lambda>q. None),
              files = Map.empty,
              fs_fault = (\<lambda>q. None),
              backend = 0,
              worker = (\<lambda>q. TransportError (External ''connection refused'')),
              events = []\<rparr>"

text \<open>
  A sample of the two library parameters, for payloads and response bodies of ASCII
  characters only: it leaves a run of bytes from 0x80 on as it is, which is what
  \<^verbatim>\<open>strconv.Quote\<close> does for the encoding of printable runes and not for other bytes,
  and it takes the whole response body for the \<open>result\<close> member.
\<close>

definition lib0 :: golib where
  "lib0 = \<lparr>quote_non_ascii = (\<lambda>s. s), unmarshal_result = (\<lambda>s. Inr s)\<rparr>"

text \<open>
  The Docker adapter behind the interface \<^verbatim>\<open>Orchestrator\<close>: \<^verbatim>\<open>RunWorker\<close> returns
  or panics as the adapter does, and the adapter's teardown, which has no expression
  that can panic, always returns.
\<close>

definition docker_orchestrator :: "'d Client \<Rightarrow> 'd dockerd Orchestrator" where
  "docker_orchestrator c =
     \<lparr>RunWorker = docker_RunWorker c,
      StopAndRemoveContainer = (\<lambda>d h.
        case docker_StopAndRemoveContainer c d h of (r, d') \<Rightarrow> (Returns r, d'))\<rparr>"

text \<open>
  A daemon that has the image, creates and starts the container \<open>c0ffee\<close> and, when
  inspected, lists the binding of \<open>8000/tcp\<close> with the given host port; a daemon that
  lists no binding at all.
\<close>

definition daemon_with_port :: "string \<Rightarrow> unit docker_cli" where
  "daemon_with_port p =
     \<lparr>ImageInspectWithRaw = (\<lambda>d img. (None, d)),
      ImagePull = (\<lambda>d img auth. (None, d)),
      ContainerRemove = (\<lambda>d n opts. (Some NotFound, d)),
      ContainerCreate = (\<lambda>d spec. (Inr ''c0ffee'', d)),
      ContainerStart = (\<lambda>d i. (None, d)),
      ContainerInspect =
        (\<lambda>d i. (Inr [''8000/tcp'' \<mapsto> [\<lparr>HostIP = ''0.0.0.0'', pb_HostPort = p\<rparr>]], d))\<rparr>"

definition daemon_without_ports :: "unit docker_cli" where
  "daemon_without_ports =
     (daemon_with_port [])\<lparr>ContainerInspect := (\<lambda>d i. (Inr Map.empty, d))\<rparr>"

definition client_of :: "unit docker_cli \<Rightarrow> unit Client" where
  "client_of d = \<lparr>cli = d, docker_cfg = cfg mgr0, authHeader = []\<rparr>"

definition mgr_docker :: "unit docker_cli \<Rightarrow> unit dockerd Manager" where
  "mgr_docker d = \<lparr>orchestrator = docker_orchestrator (client_of d), cfg = cfg mgr0\<rparr>"

definition world_docker :: "unit dockerd world" where
  "world_docker = \<lparr>rows = [],
                    db_fault = (\<lambda>q. None),
                    files = Map.empty,
                    fs_fault = (\<lambda>q. None),
                    backend = \<lparr>daemon = (), dlog = []\<rparr>,
                    worker = (\<lambda>q. TransportError (External ''connection refused'')),
                    events = []\<rparr>"

text \<open>
  A manager on the teardown of the Kubernetes adapter, in front of the cluster that holds
  no object, and a world with an empty record store.  \<^verbatim>\<open>RunWorker\<close> of that adapter is
  not part of this development; the provisioning of this sample returns the error that
  the adapter returns when the cluster refuses the creation of the config object.  The
  record \<open>fn4\<close> is what \<^verbatim>\<open>AddFunction\<close> leaves in the store behind such a failure:
  status \<open>error\<close>, no handle, no port.
\<close>

definition fn4 :: Function where
  "fn4 = \<lparr>ID = ''f4'', FunctionName = ''echo'', HandlerPath = ''function.handler.echo'',
          CodePath = ''/tmp/faas_functions/f4'', ContainerID = [],
          ContainerName = ''faas-worker-f4'', HostPort = 0, Status = ''error'',
          CreatedAt = 3\<rparr>"

definition mgr_k8s :: "unit kube Manager" where
  "mgr_k8s =
     \<lparr>orchestrator =
        \<lparr>RunWorker = (\<lambda>k f c h.
           (Returns (Inl (Wrapped ''failed to create configmap''
                            (External ''configmaps is forbidden''))), k)),
         StopAndRemoveContainer = k8s_StopAndRemoveContainer absent_cluster\<rparr>,
      cfg = cfg mgr0\<rparr>"

definition world_k8s :: "unit kube world" where
  "world_k8s = \<lparr>rows = [],
                 db_fault = (\<lambda>q. None),
                 files = Map.empty,
                 fs_fault = (\<lambda>q. None),
                 backend = kube0,
                 worker = (\<lambda>q. TransportError (External ''connection refused'')),
                 events = []\<rparr>"

text \<open>The world \<open>world0\<close> behind a database that refuses every \<open>Save\<close>.\<close>

definition world_save_refused :: "nat world" where
  "world_save_refused =
     world0\<lparr>db_fault := (\<lambda>q. case q of DbSave fn \<Rightarrow> Some (External ''connection lost'') | _ \<Rightarrow> None)\<rparr>"

text \<open>The world \<open>world0\<close> behind a read-only file system, and behind a database that
  refuses every \<open>Delete\<close>.\<close>

definition world_readonly :: "nat world" where
  "world_readonly = world0\<lparr>fs_fault := (\<lambda>q. Some (External ''read-only file system''))\<rparr>"

definition world_delete_refused :: "nat world" where
  "world_delete_refused =
     world0\<lparr>db_fault := (\<lambda>q. case q of DbDelete fn \<Rightarrow> Some (External ''connection lost'') | _ \<Rightarrow> None)\<rparr>"

section \<open>Notation for the statements\<close>

text \<open>
  The steps of \<^verbatim>\<open>AddFunction\<close> before provisioning all succeed: the file system
  accepts the directory, the file and the copy, the database accepts the new record, and
  the id is fresh.
\<close>

definition upload_accepted ::
  "'b Manager \<Rightarrow> 'b world \<Rightarrow> string \<Rightarrow> nat \<Rightarrow> string \<Rightarrow> string \<Rightarrow> bool" where
  "upload_accepted m w funcID now functionName code =
     (fs_fault w (MkdirAll (codeDir_of m funcID)) = None
      \<and> fs_fault w (Create (codeFilePath_of m funcID)) = None
      \<and> fs_fault w (Copy (codeFilePath_of m funcID) code) = None
      \<and> db_fault w (DbCreate (new_Function m funcID now functionName)) = None
      \<and> list_all (\<lambda>r. ID r \<noteq> funcID) (rows w))"


text \<open>
  What the orchestrator answers when it is asked, from the backend state \<open>b\<close>, to
  provision the records, or to tear down the handles, one after the other, each call in
  the backend state that the call before it left: the answers up to the first panic, that
  panic included, and the backend state after the last call made.  \<open>first_panic\<close> is the
  panic among such answers, if there is one.
\<close>

fun provision_in_turn ::
  "'b Orchestrator \<Rightarrow> 'b \<Rightarrow> Function list \<Rightarrow> (error + RunResult) outcome list \<times> 'b" where
  "provision_in_turn orch b [] = ([], b)"
| "provision_in_turn orch b (fn # fns) =
     (case RunWorker orch b (ID fn) (CodePath fn) (HandlerPath fn) of
        (Panics p, b1) \<Rightarrow> ([Panics p], b1)
      | (Returns r, b1) \<Rightarrow>
          (case provision_in_turn orch b1 fns of (rs, b2) \<Rightarrow> (Returns r # rs, b2)))"

fun teardown_in_turn ::
  "'b Orchestrator \<Rightarrow> 'b \<Rightarrow> string list \<Rightarrow> error option outcome list \<times> 'b" where
  "teardown_in_turn orch b [] = ([], b)"
| "teardown_in_turn orch b (h # hs) =
     (case StopAndRemoveContainer orch b h of
        (Panics p, b1) \<Rightarrow> ([Panics p], b1)
      | (Returns r, b1) \<Rightarrow>
          (case teardown_in_turn orch b1 hs of (rs, b2) \<Rightarrow> (Returns r # rs, b2)))"

fun first_panic :: "'a outcome list \<Rightarrow> string option" where
  "first_panic [] = None"
| "first_panic (Panics p # rs) = Some p"
| "first_panic (Returns r # rs) = first_panic rs"

text \<open>A log entry of the manager's logger.\<close>

abbreviation manager_log :: "level \<Rightarrow> error option \<Rightarrow> field list \<Rightarrow> string \<Rightarrow> log_entry" where
  "manager_log lvl err fs msg \<equiv> Log lvl err (FStr ''component'' ''function-manager'' # fs) msg"

text \<open>
  What the restart loop stores for a record after its provisioning answered \<open>r\<close>, the
  provisioning call it makes for a record, and the two statuses it moves between.
\<close>

abbreviation restarted :: "(error + RunResult) \<Rightarrow> Function \<Rightarrow> Function" where
  "restarted r fn \<equiv>
     (case r of
        Inl e \<Rightarrow> fn\<lparr>Status := ''stopped''\<rparr>
      | Inr rr \<Rightarrow> fn\<lparr>ContainerID := rr_ContainerID rr, HostPort := rr_HostPort rr\<rparr>)"

abbreviation provisioned ::
  "Function \<Rightarrow> (error + RunResult) outcome
     \<Rightarrow> string \<times> string \<times> string \<times> (error + RunResult) outcome" where
  "provisioned fn r \<equiv> (ID fn, CodePath fn, HandlerPath fn, r)"

abbreviation running :: "Function \<Rightarrow> bool" where
  "running fn \<equiv> Status fn = ''running''"

abbreviation stopped :: "Function \<Rightarrow> bool" where
  "stopped fn \<equiv> Status fn = ''stopped''"

section \<open>Auxiliary facts\<close>

lemma length_appName: "length appName = 11"
  by (simp add: appName_def)

lemma provisions_append: "provisions (xs @ ys) = provisions xs @ provisions ys"
  by (induction xs rule: provisions.induct) simp_all

lemma teardowns_append: "teardowns (xs @ ys) = teardowns xs @ teardowns ys"
  by (induction xs rule: teardowns.induct) simp_all

lemma requests_append: "requests (xs @ ys) = requests xs @ requests ys"
  by (induction xs rule: requests.induct) simp_all

lemma logged_append: "logged (xs @ ys) = logged xs @ logged ys"
  by (induction xs rule: logged.induct) simp_all

lemma db_First_ID: "db_First w i = Inr fn \<Longrightarrow> ID fn = i \<and> fn \<in> set (rows w)"
  by (auto simp: db_First_def find_Some_iff split: option.splits)

lemma db_First_absent:
  "db_fault w (DbFirst i) = None \<Longrightarrow> \<forall>r\<in>set (rows w). ID r \<noteq> i \<Longrightarrow> db_First w i = Inl NotFound"
  by (auto simp: db_First_def find_None_iff split: option.splits)

text \<open>Rows with a unique primary key.\<close>

lemma unique_row:
  "distinct (map ID xs) \<Longrightarrow> x \<in> set xs \<Longrightarrow> y \<in> set xs \<Longrightarrow> ID x = ID y \<Longrightarrow> x = y"
  by (meson distinct_map inj_onD)

lemma replace_absent:
  "\<forall>x\<in>set xs. ID x \<noteq> i \<Longrightarrow> map (\<lambda>x. if ID x = i then y else x) xs = xs"
  by (induction xs) auto

lemma count_replace:
  "distinct (map ID xs) \<Longrightarrow> fn \<in> set xs \<Longrightarrow>
   length (filter P (map (\<lambda>x. if ID x = ID fn then y else x) xs)) + (if P fn then 1 else 0)
     = length (filter P xs) + (if P y then 1 else 0)"
proof (induction xs)
  case Nil
  then show ?case by simp
next
  case (Cons a xs)
  show ?case
  proof (cases "a = fn")
    case True
    then have "\<forall>x\<in>set xs. ID x \<noteq> ID fn"
      using Cons.prems by (metis distinct.simps(2) image_eqI list.simps(9) set_map)
    then have "map (\<lambda>x. if ID x = ID fn then y else x) xs = xs" by (rule replace_absent)
    then show ?thesis using True by simp
  next
    case False
    then have "ID a \<noteq> ID fn" "fn \<in> set xs" using Cons.prems by force+
    then show ?thesis using Cons by simp
  qed
qed

section \<open>Teardown of the two backends\<close>

text \<open>The Docker adapter returns at once on an empty handle and asks the daemon nothing.\<close>

lemma docker_teardown_empty_handle: "docker_StopAndRemoveContainer c w [] = (None, w)"
  by (simp add: docker_StopAndRemoveContainer_def)

text \<open>
  The Docker adapter reports success when the daemon removes the container or answers
  "not found", and reports the daemon's error otherwise.
\<close>

lemma docker_teardown_result:
  "containerID \<noteq> [] \<Longrightarrow>
   fst (docker_StopAndRemoveContainer c w containerID) =
     (let r = fst (ContainerRemove (cli c) (daemon w) containerID
                     \<lparr>Force = True, RemoveVolumes = True\<rparr>)
      in if unexpected r then r else None)"
  by (simp add: docker_StopAndRemoveContainer_def docker_log_def Let_def split: prod.splits)

text \<open>
  C3.  Teardown with an empty handle must be a no-op success for both backends.  The
  Kubernetes adapter slices the handle at \<open>len(appName)+1\<close> before anything else, so the
  empty handle (stored for a record whose provisioning never succeeded) makes it panic: no
  success is reported and no deletion is requested.
\<close>

theorem k8s_teardown_empty_handle_panics:
  "k8s_StopAndRemoveContainer cs w [] = (Panics ''slice bounds out of range'', w)"
  by (simp add: k8s_StopAndRemoveContainer_def)

text \<open>The same holds for every handle shorter than \<open>len(appName)+1\<close>, which is 12.\<close>

lemma k8s_teardown_short_handle_panics:
  "length h < 12 \<Longrightarrow>
   k8s_StopAndRemoveContainer cs w h = (Panics ''slice bounds out of range'', w)"
  by (simp add: k8s_StopAndRemoveContainer_def length_appName)

text \<open>
  With a handle of 12 characters or more and a cluster that answers every deletion with
  success or "not found", the Kubernetes teardown reports success, and so does a second
  teardown with the same handle.
\<close>

lemma k8s_teardown_tolerates_absence:
  assumes "12 \<le> length h" and "\<forall>k q. \<not> unexpected (fst (cs k q))"
  shows "fst (k8s_StopAndRemoveContainer cs w h) = Returns None"
proof -
  have ok: "\<not> unexpected r" if "cs k q = (r, k')" for k q r k'
    using assms(2) that by (metis fst_conv)
  obtain r1 k1 where c1: "cs (cluster w) (DeleteHPA faasNamespace (''hpa-'' @ drop 12 h)) = (r1, k1)"
    by fastforce
  obtain r2 k2 where c2:
    "cs k1 (DeleteDeployment faasNamespace h (Some DeletePropagationForeground)) = (r2, k2)"
    by fastforce
  obtain r3 k3 where c3: "cs k2 (DeleteService faasNamespace (''service-'' @ drop 12 h)) = (r3, k3)"
    by fastforce
  obtain r4 k4 where c4:
    "cs k3 (DeleteConfigMap faasNamespace (''handler-code-'' @ drop 12 h)) = (r4, k4)"
    by fastforce
  show ?thesis
    using assms(1) c1 c2 c3 c4 ok [OF c1] ok [OF c2] ok [OF c3] ok [OF c4]
    by (simp add: k8s_StopAndRemoveContainer_def k8s_call_def k8s_log_def length_appName Let_def)
qed

lemma k8s_teardown_twice:
  assumes "12 \<le> length h" and "\<forall>k q. \<not> unexpected (fst (cs k q))"
  shows "fst (k8s_StopAndRemoveContainer cs (snd (k8s_StopAndRemoveContainer cs w h)) h) =
           Returns None"
  using assms by (rule k8s_teardown_tolerates_absence)

text \<open>
  With a daemon that answers every removal with success or "not found", the Docker
  teardown reports success for every handle, and so does a second teardown.
\<close>

lemma docker_teardown_tolerates_absence:
  assumes "\<forall>d n opts. \<not> unexpected (fst (ContainerRemove (cli c) d n opts))"
  shows "fst (docker_StopAndRemoveContainer c w h) = None"
proof (cases "h = []")
  case True
  then show ?thesis by (simp add: docker_StopAndRemoveContainer_def)
next
  case False
  have "\<not> unexpected (fst (ContainerRemove (cli c) (daemon w) h \<lparr>Force = True, RemoveVolumes = True\<rparr>))"
    using assms by blast
  then show ?thesis
    using False
    by (auto simp add: docker_StopAndRemoveContainer_def docker_log_def Let_def split: prod.splits)
qed

lemma docker_teardown_twice:
  assumes "\<forall>d n opts. \<not> unexpected (fst (ContainerRemove (cli c) d n opts))"
  shows "fst (docker_StopAndRemoveContainer c (snd (docker_StopAndRemoveContainer c w h)) h) = None"
  using assms by (rule docker_teardown_tolerates_absence)

text \<open>
  C7, as amended.  For a handle of at least \<open>len(appName)+1\<close> characters the Kubernetes
  teardown requests the deletion of the autoscaling policy, then of the workload with
  foreground propagation, then of the network object, then of the config object.  An
  answer to the first request other than success or "not found" is written to the log as
  a warning, with the name of the policy, and the teardown goes on.  Each later request
  is tolerated when it succeeds or answers "not found"; the first other error among the
  workload, the network object and the config object is returned at once, without a log
  entry, and the requests after it are not sent.  When no error is returned the teardown
  logs the deletion.  The cluster is left as the last request sent left it.
\<close>

theorem k8s_teardown_sequence:
  assumes "length appName + 1 \<le> length h"
    and "cs (cluster w) (DeleteHPA faasNamespace (''hpa-'' @ drop (length appName + 1) h)) = (r1, k1)"
    and "cs k1 (DeleteDeployment faasNamespace h (Some DeletePropagationForeground)) = (r2, k2)"
    and "cs k2 (DeleteService faasNamespace (''service-'' @ drop (length appName + 1) h)) = (r3, k3)"
    and "cs k3 (DeleteConfigMap faasNamespace (''handler-code-'' @ drop (length appName + 1) h))
           = (r4, k4)"
  shows "fst (k8s_StopAndRemoveContainer cs w h) =
           Returns (if unexpected r2 then r2 else if unexpected r3 then r3
                    else if unexpected r4 then r4 else None)
       \<and> exchanges (snd (k8s_StopAndRemoveContainer cs w h)) =
           exchanges w @
           [(DeleteHPA faasNamespace (''hpa-'' @ drop (length appName + 1) h), r1),
            (DeleteDeployment faasNamespace h (Some DeletePropagationForeground), r2)] @
           (if unexpected r2 then []
            else (DeleteService faasNamespace (''service-'' @ drop (length appName + 1) h), r3) #
                 (if unexpected r3 then []
                  else [(DeleteConfigMap faasNamespace
                           (''handler-code-'' @ drop (length appName + 1) h), r4)]))
       \<and> klog (snd (k8s_StopAndRemoveContainer cs w h)) =
           klog w @
           (if unexpected r1
            then [Log WarnLevel r1
                    [FStr ''adapter'' ''kubernetes'',
                     FStr ''hpa'' (''hpa-'' @ drop (length appName + 1) h)]
                    ''failed to delete HPA'']
            else []) @
           (if unexpected r2 \<or> unexpected r3 \<or> unexpected r4 then []
            else [Log InfoLevel None
                    [FStr ''adapter'' ''kubernetes'', FStr ''deployment'' h]
                    ''deleted kubernetes resources''])
       \<and> cluster (snd (k8s_StopAndRemoveContainer cs w h)) =
           (if unexpected r2 then k2 else if unexpected r3 then k3 else k4)"
  using assms
  by (simp add: k8s_StopAndRemoveContainer_def k8s_call_def k8s_log_def Let_def)

text \<open>
  The cluster that holds no object: the four deletions are requested in order, success is
  returned and the deletion is logged.  The cluster that refuses the deletion of the
  autoscaling policy: the refusal is logged as a warning, the other three deletions are
  requested and success is returned.
\<close>

theorem k8s_teardown_sequence_witness:
  "length appName + 1 \<le> length ''faas-worker-f1''
   \<and> fst (k8s_StopAndRemoveContainer absent_cluster kube0 ''faas-worker-f1'') = Returns None
   \<and> map fst (exchanges (snd (k8s_StopAndRemoveContainer absent_cluster kube0 ''faas-worker-f1''))) =
       [DeleteHPA faasNamespace ''hpa-f1'',
        DeleteDeployment faasNamespace ''faas-worker-f1'' (Some DeletePropagationForeground),
        DeleteService faasNamespace ''service-f1'',
        DeleteConfigMap faasNamespace ''handler-code-f1'']
   \<and> klog (snd (k8s_StopAndRemoveContainer absent_cluster kube0 ''faas-worker-f1'')) =
       [Log InfoLevel None [FStr ''adapter'' ''kubernetes'', FStr ''deployment'' ''faas-worker-f1'']
          ''deleted kubernetes resources'']
   \<and> fst (k8s_StopAndRemoveContainer hpa_refusing_cluster kube0 ''faas-worker-f1'') = Returns None
   \<and> exchanges (snd (k8s_StopAndRemoveContainer hpa_refusing_cluster kube0 ''faas-worker-f1'')) =
       [(DeleteHPA faasNamespace ''hpa-f1'',
         Some (External ''horizontalpodautoscalers is forbidden'')),
        (DeleteDeployment faasNamespace ''faas-worker-f1'' (Some DeletePropagationForeground), None),
        (DeleteService faasNamespace ''service-f1'', None),
        (DeleteConfigMap faasNamespace ''handler-code-f1'', None)]
   \<and> klog (snd (k8s_StopAndRemoveContainer hpa_refusing_cluster kube0 ''faas-worker-f1'')) =
       [Log WarnLevel (Some (External ''horizontalpodautoscalers is forbidden''))
          [FStr ''adapter'' ''kubernetes'', FStr ''hpa'' ''hpa-f1''] ''failed to delete HPA'',
        Log InfoLevel None [FStr ''adapter'' ''kubernetes'', FStr ''deployment'' ''faas-worker-f1'']
          ''deleted kubernetes resources'']"
  using k8s_teardown_sequence [where h = "''faas-worker-f1''" and cs = absent_cluster and w = kube0
      and ?r1.0 = "Some NotFound" and ?r2.0 = "Some NotFound" and ?r3.0 = "Some NotFound"
      and ?r4.0 = "Some NotFound" and ?k1.0 = "()" and ?k2.0 = "()" and ?k3.0 = "()" and ?k4.0 = "()"]
    k8s_teardown_sequence [where h = "''faas-worker-f1''" and cs = hpa_refusing_cluster and w = kube0
      and ?r1.0 = "Some (External ''horizontalpodautoscalers is forbidden'')" and ?r2.0 = None
      and ?r3.0 = None and ?r4.0 = None and ?k1.0 = "()" and ?k2.0 = "()" and ?k3.0 = "()"
      and ?k4.0 = "()"]
  by (simp add: absent_cluster_def hpa_refusing_cluster_def kube0_def appName_def unexpected_def
      faasNamespace_def)

text \<open>
  The claim as stated fails: the workload is deleted without error, the deletion of the
  network object is refused, and the teardown returns that error without requesting the
  deletion of the config object and without a log entry.
\<close>

theorem k8s_teardown_service_error_surfaced:
  "k8s_StopAndRemoveContainer service_refusing_cluster kube0 ''faas-worker-f1'' =
     (Returns (Some (External ''services is forbidden'')),
      kube0\<lparr>exchanges :=
        [(DeleteHPA faasNamespace ''hpa-f1'', None),
         (DeleteDeployment faasNamespace ''faas-worker-f1'' (Some DeletePropagationForeground), None),
         (DeleteService faasNamespace ''service-f1'', Some (External ''services is forbidden''))]\<rparr>)"
  by (simp add: k8s_StopAndRemoveContainer_def k8s_call_def k8s_log_def Let_def
      service_refusing_cluster_def kube0_def appName_def unexpected_def)

section \<open>ExecuteFunction on a function that is not running\<close>

text \<open>
  C2.  When the record loaded for the function id has a status other than \<open>running\<close> or
  the host port 0, \<open>ExecuteFunction\<close> returns \<open>NotRunningError\<close> and the world it leaves
  is the world it found: no HTTP request is sent, no event is added, no row changes.  This
  covers every record with status \<open>stopped\<close> or \<open>error\<close>.
\<close>

theorem execute_not_running:
  assumes "db_First w functionID = Inr fn"
    and "Status fn \<noteq> ''running'' \<or> HostPort fn = 0"
  shows "ExecuteFunction lib m w functionID payload = (Inl (NotRunningError functionID), w)"
  using assms by (simp add: ExecuteFunction_def)

theorem execute_not_running_witness:
  "db_First world0 ''f2'' = Inr fn2 \<and> Status fn2 = ''stopped''
   \<and> ExecuteFunction lib0 mgr0 world0 ''f2'' ''{}'' = (Inl (NotRunningError ''f2''), world0)"
  using execute_not_running [of world0 "''f2''" fn2 lib0 mgr0 "''{}''"]
  by (simp add: db_First_def world0_def fn1_def fn2_def)

section \<open>RemoveFunction\<close>

text \<open>
  When the lookup finds the record and the teardown call returns, with success or with an
  error \<open>r1\<close>, \<open>RemoveFunction\<close> has called the teardown once, with the stored handle,
  and goes on whatever the teardown and the deletion of the code directory answered: it
  returns success and no row with the id is left when the database accepts the deletion
  of the row, and it returns the database's error, wrapped, with the rows unchanged when
  the database refuses.  The code directory and the files below it are gone when the file
  system accepts their deletion.  It logs the error of the teardown as a warning, the
  error of the deletion of the code directory as an error and the removal of the row, and
  nothing else.
\<close>

lemma remove_function_teardown_returns:
  assumes "db_First w functionID = Inr fn"
    and "StopAndRemoveContainer (orchestrator m) (backend w) (ContainerID fn) = (Returns r1, b')"
  shows "fst (RemoveFunction m w functionID) =
           Returns (case db_fault w (DbDelete fn) of
                      None \<Rightarrow> None
                    | Some e \<Rightarrow> Some (Wrapped ''failed to delete function record from db'' e))
     \<and> rows (snd (RemoveFunction m w functionID)) =
         (case db_fault w (DbDelete fn) of
            None \<Rightarrow> filter (\<lambda>r. ID r \<noteq> functionID) (rows w)
          | Some e \<Rightarrow> rows w)
     \<and> teardowns (events (snd (RemoveFunction m w functionID))) =
         teardowns (events w) @ [(ContainerID fn, Returns r1)]
     \<and> backend (snd (RemoveFunction m w functionID)) = b'
     \<and> files (snd (RemoveFunction m w functionID)) =
         (case fs_fault w (RemoveAll (CodePath fn)) of
            None \<Rightarrow> (\<lambda>q. if q = CodePath fn \<or> prefix (CodePath fn @ ''/'') q then None
                          else files w q)
          | Some e \<Rightarrow> files w)
     \<and> logged (events (snd (RemoveFunction m w functionID))) =
         logged (events w) @
         (case r1 of
            Some e \<Rightarrow> [manager_log WarnLevel (Some e) [FStr ''function_id'' functionID]
                         ''failed to stop container, proceeding with cleanup'']
          | None \<Rightarrow> []) @
         (case fs_fault w (RemoveAll (CodePath fn)) of
            Some e \<Rightarrow> [manager_log ErrorLevel (Some e) [FStr ''path'' (CodePath fn)]
                         ''failed to delete function code directory'']
          | None \<Rightarrow> []) @
         (case db_fault w (DbDelete fn) of
            None \<Rightarrow> [manager_log InfoLevel None [FStr ''function_id'' functionID]
                        ''function removed successfully'']
          | Some e \<Rightarrow> [])"
proof -
  have i: "ID fn = functionID" using assms(1) by (simp add: db_First_ID)
  show ?thesis
    using assms i
    by (simp add: RemoveFunction_def call_StopAndRemoveContainer_def os_RemoveAll_def
        db_Delete_def lg_def teardowns_append logged_append Let_def split: option.splits
        cong: if_cong)
qed

text \<open>
  When the lookup gives no record, as it does when no row has the id, \<open>RemoveFunction\<close>
  returns the not-found error and changes nothing.
\<close>

lemma remove_function_not_found:
  "db_First w functionID = Inl e \<Longrightarrow>
   RemoveFunction m w functionID = (Returns (Some (FunctionNotFound functionID)), w)"
  by (simp add: RemoveFunction_def)

lemma remove_function_no_row:
  "db_fault w (DbFirst functionID) = None \<Longrightarrow> \<forall>r\<in>set (rows w). ID r \<noteq> functionID \<Longrightarrow>
   RemoveFunction m w functionID = (Returns (Some (FunctionNotFound functionID)), w)"
  by (simp add: remove_function_not_found db_First_absent)

text \<open>
  When the teardown call panics, \<open>RemoveFunction\<close> ends with that panic: the code
  directory and the row are not deleted and nothing is logged.  The teardown of the
  Kubernetes adapter panics on every handle shorter than \<open>len(appName)+1\<close>.
\<close>

lemma remove_function_teardown_panics:
  assumes "db_First w functionID = Inr fn"
    and "StopAndRemoveContainer (orchestrator m) (backend w) (ContainerID fn) = (Panics p, b')"
  shows "RemoveFunction m w functionID =
           (Panics p,
            w\<lparr>backend := b',
              events := events w @ [CalledStopAndRemoveContainer (ContainerID fn) (Panics p)]\<rparr>)"
  using assms by (simp add: RemoveFunction_def call_StopAndRemoveContainer_def)

lemma remove_function_short_handle_k8s:
  assumes "StopAndRemoveContainer (orchestrator m) = k8s_StopAndRemoveContainer cs"
    and "db_First w functionID = Inr fn"
    and "length (ContainerID fn) < 12"
  shows "fst (RemoveFunction m w functionID) = Panics ''slice bounds out of range''
     \<and> rows (snd (RemoveFunction m w functionID)) = rows w
     \<and> files (snd (RemoveFunction m w functionID)) = files w
     \<and> backend (snd (RemoveFunction m w functionID)) = backend w
     \<and> logged (events (snd (RemoveFunction m w functionID))) = logged (events w)"
  using assms(2)
    remove_function_teardown_panics [of w functionID fn m "''slice bounds out of range''" "backend w"]
    k8s_teardown_short_handle_panics [OF assms(3), of cs "backend w"]
  by (simp add: assms(1) logged_append)

text \<open>
  C6.  For every stored id \<open>RemoveFunction\<close> must delete the record when the record
  store accepts the deletion, whatever the teardown did.  On the Kubernetes adapter it does
  not for a record without a handle.  The provisioning of \<open>f4\<close> fails, and
  \<open>AddFunction\<close> leaves the record in the store with status \<open>error\<close> and the empty
  handle.  \<open>RemoveFunction\<close> of \<open>f4\<close> then passes the empty handle to the teardown of
  the adapter, which panics before it asks the cluster anything; the panic unwinds
  \<open>RemoveFunction\<close>, and although the database would accept the deletion the record
  and the code file stay where they were, with nothing logged.
\<close>

theorem remove_function_empty_handle_panics:
  "fst (AddFunction mgr_k8s world_k8s ''f4'' 3 ''echo'' ''def echo(p): return p'') =
     Returns (Inl (Wrapped ''start worker container''
                (Wrapped ''failed to create configmap'' (External ''configmaps is forbidden''))))
   \<and> rows (snd (AddFunction mgr_k8s world_k8s ''f4'' 3 ''echo'' ''def echo(p): return p'')) = [fn4]
   \<and> ContainerID fn4 = []
   \<and> db_First (snd (AddFunction mgr_k8s world_k8s ''f4'' 3 ''echo'' ''def echo(p): return p''))
        ''f4'' = Inr fn4
   \<and> db_fault (snd (AddFunction mgr_k8s world_k8s ''f4'' 3 ''echo'' ''def echo(p): return p''))
        (DbDelete fn4) = None
   \<and> fst (RemoveFunction mgr_k8s
            (snd (AddFunction mgr_k8s world_k8s ''f4'' 3 ''echo'' ''def echo(p): return p''))
            ''f4'') = Panics ''slice bounds out of range''
   \<and> rows (snd (RemoveFunction mgr_k8s
            (snd (AddFunction mgr_k8s world_k8s ''f4'' 3 ''echo'' ''def echo(p): return p''))
            ''f4'')) = [fn4]
   \<and> files (snd (RemoveFunction mgr_k8s
            (snd (AddFunction mgr_k8s world_k8s ''f4'' 3 ''echo'' ''def echo(p): return p''))
            ''f4'')) ''/tmp/faas_functions/f4/handler.py'' = Some ''def echo(p): return p''
   \<and> teardowns (events (snd (RemoveFunction mgr_k8s
            (snd (AddFunction mgr_k8s world_k8s ''f4'' 3 ''echo'' ''def echo(p): return p''))
            ''f4''))) = [([], Panics ''slice bounds out of range'')]
   \<and> exchanges (backend (snd (RemoveFunction mgr_k8s
            (snd (AddFunction mgr_k8s world_k8s ''f4'' 3 ''echo'' ''def echo(p): return p''))
            ''f4''))) = []
   \<and> logged (events (snd (RemoveFunction mgr_k8s
            (snd (AddFunction mgr_k8s world_k8s ''f4'' 3 ''echo'' ''def echo(p): return p''))
            ''f4''))) =
       logged (events (snd (AddFunction mgr_k8s world_k8s ''f4'' 3 ''echo''
                              ''def echo(p): return p'')))"
proof -
  let ?A = "AddFunction mgr_k8s world_k8s ''f4'' 3 ''echo'' ''def echo(p): return p''"
  let ?e = "Wrapped ''failed to create configmap'' (External ''configmaps is forbidden'')"
  have A: "?A =
      (Returns (Inl (Wrapped ''start worker container'' ?e)),
       world_k8s\<lparr>rows := [fn4],
         files := [''/tmp/faas_functions/f4/handler.py'' \<mapsto> ''def echo(p): return p''],
         events := [CalledRunWorker ''f4'' ''/tmp/faas_functions/f4'' ''function.handler.echo''
                      (Returns (Inl ?e)),
                    Logged (manager_log ErrorLevel (Some ?e) [FStr ''function_id'' ''f4'']
                              ''failed to start container, rolling back'')]\<rparr>)"
    by (simp add: AddFunction_def os_MkdirAll_def os_Create_def io_Copy_def db_Create_def
        db_Save_def call_RunWorker_def lg_def Let_def new_Function_def fn4_def world_k8s_def
        mgr_k8s_def mgr0_def codeDir_of_def codeFilePath_of_def filepath_Join_def
        filepath_Clean_def)
  have F: "db_First (snd ?A) ''f4'' = Inr fn4"
    unfolding A by (simp add: db_First_def world_k8s_def fn4_def)
  have R: "RemoveFunction mgr_k8s (snd ?A) ''f4'' =
      (Panics ''slice bounds out of range'',
       (snd ?A)\<lparr>events := events (snd ?A) @
          [CalledStopAndRemoveContainer [] (Panics ''slice bounds out of range'')]\<rparr>)"
    using F
    by (simp add: RemoveFunction_def call_StopAndRemoveContainer_def mgr_k8s_def fn4_def
        k8s_StopAndRemoveContainer_def)
  have h: "ContainerID fn4 = []" by (simp add: fn4_def)
  have d: "db_fault (snd ?A) (DbDelete fn4) = None" unfolding A by (simp add: world_k8s_def)
  have a: "fst ?A = Returns (Inl (Wrapped ''start worker container'' ?e))"
    "rows (snd ?A) = [fn4]"
    "files (snd ?A) ''/tmp/faas_functions/f4/handler.py'' = Some ''def echo(p): return p''"
    "teardowns (events (snd ?A)) = []"
    "exchanges (backend (snd ?A)) = []"
    unfolding A by (simp_all add: world_k8s_def kube0_def)
  show ?thesis
    unfolding R using a F h d by (simp add: logged_append teardowns_append)
qed

section \<open>CleanupAllFunctions\<close>

lemma cleanup_one_skip: "\<not> running fn \<Longrightarrow> cleanup_one m w fn = (Returns (), w)"
  by (simp add: cleanup_one_def)

lemma cleanup_one_call:
  assumes "running fn"
    and "StopAndRemoveContainer (orchestrator m) (backend w) (ContainerID fn) = (out, b1)"
  shows "cleanup_one m w fn =
     ((case out of Panics p \<Rightarrow> Panics p | Returns r \<Rightarrow> Returns ()),
      w\<lparr>backend := b1,
        events := events w @
          CalledStopAndRemoveContainer (ContainerID fn) out #
          (case out of
             Returns (Some e) \<Rightarrow>
               [Logged (manager_log ErrorLevel (Some e) [FStr ''function_id'' (ID fn)]
                          ''failed during cleanup'')]
           | _ \<Rightarrow> [])\<rparr>)"
  using assms
  by (simp add: cleanup_one_def call_StopAndRemoveContainer_def lg_def
      split: outcome.splits option.splits)

lemma cleanup_loop_effect:
  assumes "teardown_in_turn (orchestrator m) (backend w) (map ContainerID (filter running fns)) =
             (outs, b')"
  shows "fst (cleanup_loop m w fns) =
           (case first_panic outs of None \<Rightarrow> Returns () | Some p \<Rightarrow> Panics p)
     \<and> backend (snd (cleanup_loop m w fns)) = b'
     \<and> teardowns (events (snd (cleanup_loop m w fns))) =
         teardowns (events w) @ zip (map ContainerID (filter running fns)) outs
     \<and> logged (events (snd (cleanup_loop m w fns))) =
         logged (events w) @
         concat (map2 (\<lambda>fn out. case out of
                          Returns (Some e) \<Rightarrow>
                            [manager_log ErrorLevel (Some e) [FStr ''function_id'' (ID fn)]
                               ''failed during cleanup'']
                        | _ \<Rightarrow> [])
                   (filter running fns) outs)
     \<and> provisions (events (snd (cleanup_loop m w fns))) = provisions (events w)
     \<and> requests (events (snd (cleanup_loop m w fns))) = requests (events w)
     \<and> rows (snd (cleanup_loop m w fns)) = rows w
     \<and> files (snd (cleanup_loop m w fns)) = files w
     \<and> (first_panic outs = None \<longrightarrow> length outs = length (filter running fns))"
  using assms
proof (induction fns arbitrary: w outs b')
  case Nil
  then show ?case by simp
next
  case (Cons fn fns)
  show ?case
  proof (cases "running fn")
    case False
    then show ?thesis
      using Cons.IH [of w outs b'] Cons.prems by (simp add: cleanup_one_skip)
  next
    case True
    obtain out b1 where
      c: "StopAndRemoveContainer (orchestrator m) (backend w) (ContainerID fn) = (out, b1)"
      by fastforce
    note one = cleanup_one_call [OF True c]
    show ?thesis
    proof (cases out)
      case (Panics p)
      then have "outs = [Panics p]" "b' = b1"
        using Cons.prems True c by simp_all
      then show ?thesis
        using one True Panics
        by (simp add: teardowns_append logged_append provisions_append requests_append)
    next
      case (Returns r)
      obtain rs where
        t: "teardown_in_turn (orchestrator m) b1 (map ContainerID (filter running fns)) = (rs, b')"
        and o: "outs = Returns r # rs"
        using Cons.prems True c Returns by (auto split: prod.splits)
      let ?w1 = "snd (cleanup_one m w fn)"
      have b: "backend ?w1 = b1" using one by simp
      note ih = Cons.IH [of ?w1 rs b', unfolded b, OF t]
      have l: "cleanup_loop m w (fn # fns) = cleanup_loop m ?w1 fns"
        using one Returns by simp
      show ?thesis
        unfolding l o using ih one True Returns
        by (simp add: teardowns_append logged_append provisions_append requests_append
            split: option.splits)
    qed
  qed
qed

text \<open>
  C9.  When the listing returns the stored records and the teardown calls for the handles
  of the records with status \<open>running\<close>, asked in the order of the listing, return the
  answers \<open>rs\<close>, each a success or an error: \<open>CleanupAllFunctions\<close> returns success;
  the teardown calls it makes are exactly those, one for every listed record whose status
  is \<open>running\<close> and none for any other record, each with the stored handle and with the
  answer the orchestrator gave, an error among the answers stopping nothing; the backend
  is left as the last of these calls left it; every error among the answers is logged
  with the id of its record, and nothing else is logged but the opening line; the rows
  and the files are the ones it found, and it provisions nothing and sends no request.
\<close>

theorem cleanup_all_functions:
  assumes "ListFunctions w = Inr fns"
    and "teardown_in_turn (orchestrator m) (backend w) (map ContainerID (filter running fns)) =
           (map Returns rs, b')"
  shows "fns = rows w
     \<and> fst (CleanupAllFunctions m w) = Returns None
     \<and> length rs = length (filter running fns)
     \<and> teardowns (events (snd (CleanupAllFunctions m w))) =
         teardowns (events w) @ zip (map ContainerID (filter running fns)) (map Returns rs)
     \<and> backend (snd (CleanupAllFunctions m w)) = b'
     \<and> logged (events (snd (CleanupAllFunctions m w))) =
         logged (events w) @
         manager_log InfoLevel None [] ''cleaning up all function containers'' #
         concat (map2 (\<lambda>fn r. case r of
                          Some e \<Rightarrow>
                            [manager_log ErrorLevel (Some e) [FStr ''function_id'' (ID fn)]
                               ''failed during cleanup'']
                        | None \<Rightarrow> [])
                   (filter running fns) rs)
     \<and> provisions (events (snd (CleanupAllFunctions m w))) = provisions (events w)
     \<and> requests (events (snd (CleanupAllFunctions m w))) = requests (events w)
     \<and> rows (snd (CleanupAllFunctions m w)) = rows w
     \<and> files (snd (CleanupAllFunctions m w)) = files w"
proof -
  let ?w0 = "lg w InfoLevel None [] ''cleaning up all function containers''"
  let ?log = "\<lambda>fn out. case out of
                 Returns (Some e) \<Rightarrow>
                   [manager_log ErrorLevel (Some e) [FStr ''function_id'' (ID fn)]
                      ''failed during cleanup'']
               | _ \<Rightarrow> []"
  have f: "fns = rows w"
    using assms(1) by (simp add: ListFunctions_def db_Find_def split: option.splits)
  have l: "ListFunctions ?w0 = Inr fns"
    using assms(1) by (simp add: ListFunctions_def db_Find_def lg_def split: option.splits)
  have e: "backend ?w0 = backend w" "rows ?w0 = rows w" "files ?w0 = files w"
    "teardowns (events ?w0) = teardowns (events w)"
    "provisions (events ?w0) = provisions (events w)"
    "requests (events ?w0) = requests (events w)"
    "logged (events ?w0) =
       logged (events w) @ [manager_log InfoLevel None [] ''cleaning up all function containers'']"
    by (simp_all add: lg_def teardowns_append provisions_append requests_append logged_append)
  note loop = cleanup_loop_effect [of m ?w0 fns "map Returns rs" b', unfolded e(1), OF assms(2)]
  have np: "first_panic (map Returns rs) = None" by (induction rs) simp_all
  have c: "CleanupAllFunctions m w = (Returns None, snd (cleanup_loop m ?w0 fns))"
    using l loop [THEN conjunct1] np
    by (auto simp add: CleanupAllFunctions_def Let_def split: prod.splits)
  have len: "length rs = length (filter running fns)"
    using loop np by simp
  have lg: "concat (map2 ?log (filter running fns) (map Returns rs)) =
      concat (map2 (\<lambda>fn r. case r of
                          Some e \<Rightarrow>
                            [manager_log ErrorLevel (Some e) [FStr ''function_id'' (ID fn)]
                               ''failed during cleanup'']
                        | None \<Rightarrow> [])
                   (filter running fns) rs)"
    by (simp add: zip_map2 comp_def case_prod_unfold cong: option.case_cong)
  show ?thesis
    unfolding c using loop e f len lg by simp
qed

text \<open>
  Every teardown is answered with an error; the two running records are both torn down,
  with their handles and in order, both errors are logged, the stopped record is not torn
  down and the rows are unchanged.
\<close>

theorem cleanup_all_functions_witness:
  "ListFunctions world0 = Inr [fn1, fn2, fn3]
   \<and> teardown_in_turn (orchestrator mgr0) (backend world0)
       (map ContainerID (filter running [fn1, fn2, fn3])) =
       (map Returns [Some (External ''daemon unreachable''), Some (External ''daemon unreachable'')], 2)
   \<and> fst (CleanupAllFunctions mgr0 world0) = Returns None
   \<and> teardowns (events (snd (CleanupAllFunctions mgr0 world0))) =
       [(''c1'', Returns (Some (External ''daemon unreachable''))),
        (''c3'', Returns (Some (External ''daemon unreachable'')))]
   \<and> backend (snd (CleanupAllFunctions mgr0 world0)) = 2
   \<and> logged (events (snd (CleanupAllFunctions mgr0 world0))) =
       [manager_log InfoLevel None [] ''cleaning up all function containers'',
        manager_log ErrorLevel (Some (External ''daemon unreachable'')) [FStr ''function_id'' ''f1'']
          ''failed during cleanup'',
        manager_log ErrorLevel (Some (External ''daemon unreachable'')) [FStr ''function_id'' ''f3'']
          ''failed during cleanup'']
   \<and> rows (snd (CleanupAllFunctions mgr0 world0)) = [fn1, fn2, fn3]"
  using cleanup_all_functions [of world0 "[fn1, fn2, fn3]" mgr0
      "[Some (External ''daemon unreachable''), Some (External ''daemon unreachable'')]" 2]
  by (simp add: ListFunctions_def db_Find_def world0_def mgr0_def flaky_def fn1_def fn2_def
      fn3_def)

text \<open>When the listing fails, the cleanup returns that error wrapped and tears nothing down.\<close>

lemma cleanup_listing_fails:
  assumes "ListFunctions w = Inl e"
  shows "fst (CleanupAllFunctions m w) =
           Returns (Some (Wrapped ''could not list functions for cleanup'' e))
     \<and> teardowns (events (snd (CleanupAllFunctions m w))) = teardowns (events w)
     \<and> backend (snd (CleanupAllFunctions m w)) = backend w
     \<and> rows (snd (CleanupAllFunctions m w)) = rows w"
proof -
  have "ListFunctions (lg w InfoLevel None [] ''cleaning up all function containers'') = Inl e"
    using assms by (simp add: ListFunctions_def db_Find_def lg_def split: option.splits)
  then show ?thesis
    by (simp add: CleanupAllFunctions_def Let_def lg_def teardowns_append)
qed

text \<open>
  A teardown call that panics ends the cleanup with that panic; the calls made are those
  up to it.  The teardown of the Docker adapter returns for every handle, and the teardown
  of the Kubernetes adapter returns for every handle of at least \<open>len(appName)+1\<close>
  characters, as the handles are that its provisioning returns (\<open>faas-worker-\<close> and the
  function id).
\<close>

lemma cleanup_teardown_panics:
  assumes "ListFunctions w = Inr fns"
    and "teardown_in_turn (orchestrator m) (backend w) (map ContainerID (filter running fns)) =
           (outs, b')"
    and "first_panic outs = Some p"
  shows "fst (CleanupAllFunctions m w) = Panics p
     \<and> teardowns (events (snd (CleanupAllFunctions m w))) =
         teardowns (events w) @ zip (map ContainerID (filter running fns)) outs
     \<and> backend (snd (CleanupAllFunctions m w)) = b'
     \<and> rows (snd (CleanupAllFunctions m w)) = rows w"
proof -
  let ?w0 = "lg w InfoLevel None [] ''cleaning up all function containers''"
  have l: "ListFunctions ?w0 = Inr fns"
    using assms(1) by (simp add: ListFunctions_def db_Find_def lg_def split: option.splits)
  have e: "backend ?w0 = backend w" "rows ?w0 = rows w"
    "teardowns (events ?w0) = teardowns (events w)"
    by (simp_all add: lg_def teardowns_append)
  note loop = cleanup_loop_effect [of m ?w0 fns outs b', unfolded e(1), OF assms(2)]
  have c: "CleanupAllFunctions m w = (Panics p, snd (cleanup_loop m ?w0 fns))"
    using l loop [THEN conjunct1] assms(3)
    by (auto simp add: CleanupAllFunctions_def Let_def split: prod.splits)
  show ?thesis
    unfolding c using loop e by simp
qed

lemma docker_teardowns_return:
  "\<exists>rs b'. teardown_in_turn (docker_orchestrator c) b hs = (map Returns rs, b')"
proof (induction hs arbitrary: b)
  case Nil
  show ?case by simp
next
  case (Cons h hs)
  obtain r b1 where s: "docker_StopAndRemoveContainer c b h = (r, b1)" by fastforce
  obtain rs b' where "teardown_in_turn (docker_orchestrator c) b1 hs = (map Returns rs, b')"
    using Cons [of b1] by blast
  then have "teardown_in_turn (docker_orchestrator c) b (h # hs) = (map Returns (r # rs), b')"
    using s by (simp add: docker_orchestrator_def)
  then show ?case by blast
qed

lemma k8s_teardowns_return:
  assumes "StopAndRemoveContainer orch = k8s_StopAndRemoveContainer cs"
    and "\<forall>h\<in>set hs. 12 \<le> length h"
  shows "\<exists>rs b'. teardown_in_turn orch b hs = (map Returns rs, b')"
  using assms(2)
proof (induction hs arbitrary: b)
  case Nil
  show ?case by simp
next
  case (Cons h hs)
  have "\<exists>r b1. k8s_StopAndRemoveContainer cs b h = (Returns r, b1)"
    using Cons.prems
    by (simp add: k8s_StopAndRemoveContainer_def length_appName Let_def split: prod.splits)
  then obtain r b1 where s: "k8s_StopAndRemoveContainer cs b h = (Returns r, b1)" by blast
  obtain rs b' where "teardown_in_turn orch b1 hs = (map Returns rs, b')"
    using Cons.IH [of b1] Cons.prems by auto
  then have "teardown_in_turn orch b (h # hs) = (map Returns (r # rs), b')"
    using s assms(1) by simp
  then show ?case by blast
qed

section \<open>RestartRunningFunctions\<close>

lemma restart_one_panics:
  assumes "RunWorker (orchestrator m) (backend w) (ID fn) (CodePath fn) (HandlerPath fn) =
             (Panics p, b1)"
  shows "restart_one m w fn =
     (Panics p,
      w\<lparr>backend := b1,
        events := events w @
          [Logged (manager_log InfoLevel None [FStr ''function_id'' (ID fn)] ''restarting function''),
           CalledRunWorker (ID fn) (CodePath fn) (HandlerPath fn) (Panics p)]\<rparr>)"
  using assms by (simp add: restart_one_def call_RunWorker_def lg_def)

lemma restart_one_returns:
  assumes "RunWorker (orchestrator m) (backend w) (ID fn) (CodePath fn) (HandlerPath fn) =
             (Returns r, b1)"
  shows "fst (restart_one m w fn) = Returns ()
     \<and> backend (snd (restart_one m w fn)) = b1
     \<and> db_fault (snd (restart_one m w fn)) = db_fault w
     \<and> provisions (events (snd (restart_one m w fn))) =
         provisions (events w) @ [provisioned fn (Returns r)]
     \<and> teardowns (events (snd (restart_one m w fn))) = teardowns (events w)
     \<and> files (snd (restart_one m w fn)) = files w
     \<and> logged (events (snd (restart_one m w fn))) =
         logged (events w) @
         manager_log InfoLevel None [FStr ''function_id'' (ID fn)] ''restarting function'' #
         (case r of
            Inl e \<Rightarrow> [manager_log ErrorLevel (Some e) [FStr ''function_id'' (ID fn)]
                        ''failed to restart function container'']
          | Inr rr \<Rightarrow> []) @
         (case db_fault w (DbSave (restarted r fn)) of
            Some e \<Rightarrow> [manager_log ErrorLevel (Some e) [FStr ''function_id'' (ID fn)]
                         ''failed to update function record on restart'']
          | None \<Rightarrow> [])"
  using assms
  by (auto simp add: restart_one_def call_RunWorker_def lg_def db_Save_def provisions_append
      teardowns_append logged_append split: sum.splits option.splits)

lemma restart_one_effect:
  assumes "RunWorker (orchestrator m) (backend w) (ID fn) (CodePath fn) (HandlerPath fn) =
             (Returns r, b1)"
    and "fn \<in> set (rows w)"
  shows "rows (snd (restart_one m w fn)) =
           (if db_fault w (DbSave (restarted r fn)) = None
            then map (\<lambda>x. if ID x = ID fn then restarted r fn else x) (rows w)
            else rows w)"
  using assms
  by (auto simp add: restart_one_def call_RunWorker_def lg_def db_Save_def list_ex_iff
      split: sum.splits option.splits)

lemma replace_same:
  "distinct (map ID xs) \<Longrightarrow> fn \<in> set xs \<Longrightarrow> map (\<lambda>x. if ID x = ID fn then fn else x) xs = xs"
  by (rule map_idI) (auto dest: unique_row)

lemma ID_restarted: "ID (restarted r fn) = ID fn"
  by (simp split: sum.splits)

lemma first_panic_Returns: "first_panic (map Returns rs) = None"
  by (induction rs) simp_all

text \<open>The calls of the loop, whether they return or not.\<close>

lemma restart_loop_calls:
  assumes "provision_in_turn (orchestrator m) (backend w) fns = (outs, b')"
  shows "fst (restart_loop m w fns) =
           (case first_panic outs of None \<Rightarrow> Returns () | Some p \<Rightarrow> Panics p)
     \<and> backend (snd (restart_loop m w fns)) = b'
     \<and> provisions (events (snd (restart_loop m w fns))) =
         provisions (events w) @ map2 provisioned fns outs
     \<and> teardowns (events (snd (restart_loop m w fns))) = teardowns (events w)
     \<and> files (snd (restart_loop m w fns)) = files w"
  using assms
proof (induction fns arbitrary: w outs b')
  case Nil
  then show ?case by simp
next
  case (Cons fn fns)
  obtain out b1 where
    c: "RunWorker (orchestrator m) (backend w) (ID fn) (CodePath fn) (HandlerPath fn) = (out, b1)"
    by fastforce
  show ?case
  proof (cases out)
    case (Panics p)
    then have "outs = [Panics p]" "b' = b1"
      using Cons.prems c by simp_all
    then show ?thesis
      using restart_one_panics [of m w fn p b1] c Panics
      by (simp add: provisions_append teardowns_append)
  next
    case (Returns r)
    obtain rs where
      t: "provision_in_turn (orchestrator m) b1 fns = (rs, b')"
      and o: "outs = Returns r # rs"
      using Cons.prems c Returns by (auto split: prod.splits)
    let ?w1 = "snd (restart_one m w fn)"
    note one = restart_one_returns [of m w fn r b1]
    have c': "RunWorker (orchestrator m) (backend w) (ID fn) (CodePath fn) (HandlerPath fn) =
                (Returns r, b1)"
      using c Returns by simp
    have b: "backend ?w1 = b1" using one [OF c'] by simp
    note ih = Cons.IH [of ?w1 rs b', unfolded b, OF t]
    have l: "restart_loop m w (fn # fns) = restart_loop m ?w1 fns"
      using one [OF c', THEN conjunct1] by (auto split: prod.splits)
    show ?thesis
      unfolding l o using ih one [OF c'] by simp
  qed
qed

lemma provision_in_turn_returns:
  assumes "provision_in_turn orch b (fn # fns) = (map Returns outs, b')"
  shows "\<exists>r b1 rs. RunWorker orch b (ID fn) (CodePath fn) (HandlerPath fn) = (Returns r, b1)
           \<and> provision_in_turn orch b1 fns = (map Returns rs, b') \<and> outs = r # rs"
proof -
  obtain out b1 where c: "RunWorker orch b (ID fn) (CodePath fn) (HandlerPath fn) = (out, b1)"
    by fastforce
  show ?thesis
  proof (cases out)
    case (Panics p)
    then have "map Returns outs = [Panics p]" using assms c by simp
    then show ?thesis by (auto simp: map_eq_Cons_conv)
  next
    case (Returns r)
    obtain xs where t: "provision_in_turn orch b1 fns = (xs, b')"
      and o: "map Returns outs = Returns r # xs"
      using assms c Returns by (auto split: prod.splits)
    from o obtain rs where "outs = r # rs" "xs = map Returns rs"
      by (auto simp: map_eq_Cons_conv)
    then show ?thesis using c Returns t by simp
  qed
qed

text \<open>The loop when every provisioning call returns.\<close>

lemma restart_loop_effect:
  assumes "provision_in_turn (orchestrator m) (backend w) fns = (map Returns outs, b')"
  shows "length outs = length fns
     \<and> logged (events (snd (restart_loop m w fns))) =
         logged (events w) @
         concat (map2 (\<lambda>fn r.
                   manager_log InfoLevel None [FStr ''function_id'' (ID fn)] ''restarting function'' #
                   (case r of
                      Inl e \<Rightarrow> [manager_log ErrorLevel (Some e) [FStr ''function_id'' (ID fn)]
                                  ''failed to restart function container'']
                    | Inr rr \<Rightarrow> []) @
                   (case db_fault w (DbSave (restarted r fn)) of
                      Some e \<Rightarrow> [manager_log ErrorLevel (Some e) [FStr ''function_id'' (ID fn)]
                                   ''failed to update function record on restart'']
                    | None \<Rightarrow> []))
                 fns outs)
     \<and> (distinct (map ID (rows w)) \<and> set fns \<subseteq> set (rows w) \<and> distinct (map ID fns) \<longrightarrow>
          rows (snd (restart_loop m w fns)) =
            map (\<lambda>x. case map_of (zip (map ID fns) outs) (ID x) of
                        None \<Rightarrow> x
                      | Some r \<Rightarrow> if db_fault w (DbSave (restarted r x)) = None
                                  then restarted r x else x)
              (rows w))
     \<and> ((\<forall>fn. db_fault w (DbSave fn) = None) \<and> distinct (map ID (rows w))
          \<and> set fns \<subseteq> set (rows w) \<and> distinct (map ID fns) \<and> (\<forall>fn\<in>set fns. running fn) \<longrightarrow>
          length (filter running (rows (snd (restart_loop m w fns)))) + length (filter isl outs) =
              length (filter running (rows w))
          \<and> length (filter stopped (rows (snd (restart_loop m w fns)))) =
              length (filter stopped (rows w)) + length (filter isl outs))"
  using assms
proof (induction fns arbitrary: w outs b')
  case Nil
  then show ?case by simp
next
  case (Cons fn fns)
  obtain r b1 rs where
    c: "RunWorker (orchestrator m) (backend w) (ID fn) (CodePath fn) (HandlerPath fn) =
          (Returns r, b1)"
    and t: "provision_in_turn (orchestrator m) b1 fns = (map Returns rs, b')"
    and o: "outs = r # rs"
    using provision_in_turn_returns [OF Cons.prems] by blast
  let ?w1 = "snd (restart_one m w fn)"
  note one = restart_one_returns [OF c]
  have b: "backend ?w1 = b1" using one by simp
  have frame: "db_fault ?w1 = db_fault w" using one by simp
  have l: "restart_loop m w (fn # fns) = restart_loop m ?w1 fns"
    using one [THEN conjunct1] by (auto split: prod.splits)
  note ih = Cons.IH [of ?w1 rs b', unfolded b, OF t]
  have len: "length rs = length fns" using ih by simp
  have lg1: "logged (events ?w1) =
         logged (events w) @
         manager_log InfoLevel None [FStr ''function_id'' (ID fn)] ''restarting function'' #
         (case r of
            Inl e \<Rightarrow> [manager_log ErrorLevel (Some e) [FStr ''function_id'' (ID fn)]
                        ''failed to restart function container'']
          | Inr rr \<Rightarrow> []) @
         (case db_fault w (DbSave (restarted r fn)) of
            Some e \<Rightarrow> [manager_log ErrorLevel (Some e) [FStr ''function_id'' (ID fn)]
                         ''failed to update function record on restart'']
          | None \<Rightarrow> [])"
    using one by simp
  have lgs: "logged (events (snd (restart_loop m ?w1 fns))) =
         logged (events ?w1) @
         concat (map2 (\<lambda>fn r.
                   manager_log InfoLevel None [FStr ''function_id'' (ID fn)] ''restarting function'' #
                   (case r of
                      Inl e \<Rightarrow> [manager_log ErrorLevel (Some e) [FStr ''function_id'' (ID fn)]
                                  ''failed to restart function container'']
                    | Inr rr \<Rightarrow> []) @
                   (case db_fault w (DbSave (restarted r fn)) of
                      Some e \<Rightarrow> [manager_log ErrorLevel (Some e) [FStr ''function_id'' (ID fn)]
                                   ''failed to update function record on restart'']
                    | None \<Rightarrow> []))
                 fns rs)"
    using ih [THEN conjunct2, THEN conjunct1] unfolding frame .
  have "length outs = length (fn # fns)" using len o by simp
  moreover have "logged (events (snd (restart_loop m w (fn # fns)))) =
         logged (events w) @
         concat (map2 (\<lambda>fn r.
                   manager_log InfoLevel None [FStr ''function_id'' (ID fn)] ''restarting function'' #
                   (case r of
                      Inl e \<Rightarrow> [manager_log ErrorLevel (Some e) [FStr ''function_id'' (ID fn)]
                                  ''failed to restart function container'']
                    | Inr rr \<Rightarrow> []) @
                   (case db_fault w (DbSave (restarted r fn)) of
                      Some e \<Rightarrow> [manager_log ErrorLevel (Some e) [FStr ''function_id'' (ID fn)]
                                   ''failed to update function record on restart'']
                    | None \<Rightarrow> []))
                 (fn # fns) outs)"
    unfolding l o lgs lg1 by simp
  moreover have "rows (snd (restart_loop m w (fn # fns))) =
            map (\<lambda>x. case map_of (zip (map ID (fn # fns)) outs) (ID x) of
                        None \<Rightarrow> x
                      | Some r \<Rightarrow> if db_fault w (DbSave (restarted r x)) = None
                                  then restarted r x else x)
              (rows w)"
    if dist: "distinct (map ID (rows w))"
      and sub: "set (fn # fns) \<subseteq> set (rows w)"
      and dfns: "distinct (map ID (fn # fns))"
  proof -
    let ?s = "if db_fault w (DbSave (restarted r fn)) = None then restarted r fn else fn"
    have fn_in: "fn \<in> set (rows w)" using sub by simp
    have r1: "rows ?w1 = map (\<lambda>x. if ID x = ID fn then ?s else x) (rows w)"
      using restart_one_effect [OF c fn_in] replace_same [OF dist fn_in] by simp
    have ids: "map ID (rows ?w1) = map ID (rows w)"
      unfolding r1 by (simp add: comp_def ID_restarted cong: map_cong)
    have others: "\<forall>f\<in>set fns. ID f \<noteq> ID fn"
      using dfns by (metis distinct.simps(2) image_eqI list.simps(9) set_map)
    have sub1: "set fns \<subseteq> set (rows ?w1)"
    proof
      fix f assume f: "f \<in> set fns"
      then have "f \<in> set (rows w)" "ID f \<noteq> ID fn" using sub others by auto
      then show "f \<in> set (rows ?w1)" unfolding r1 by force
    qed
    have pre1: "distinct (map ID (rows ?w1)) \<and> set fns \<subseteq> set (rows ?w1) \<and> distinct (map ID fns)"
      using ids dist sub1 dfns by simp
    note ih_rows = ih [THEN conjunct2, THEN conjunct2, THEN conjunct1, rule_format, OF pre1,
        unfolded frame]
    have absent: "map_of (zip (map ID fns) rs) (ID fn) = None"
    proof -
      have "ID fn \<notin> set (map ID fns)" using dfns by simp
      then have "ID fn \<notin> fst ` set (zip (map ID fns) rs)"
        by (metis imageE in_set_zipE prod.collapse)
      then show ?thesis by (simp add: map_of_eq_None_iff)
    qed
    have "rows (snd (restart_loop m w (fn # fns))) =
        map (\<lambda>x. case map_of (zip (map ID fns) rs) (ID x) of
                    None \<Rightarrow> x
                  | Some r \<Rightarrow> if db_fault w (DbSave (restarted r x)) = None
                              then restarted r x else x)
          (map (\<lambda>x. if ID x = ID fn then ?s else x) (rows w))"
      unfolding l using ih_rows r1 by simp
    also have "\<dots> = map (\<lambda>x. case map_of (zip (map ID (fn # fns)) (r # rs)) (ID x) of
                      None \<Rightarrow> x
                    | Some r \<Rightarrow> if db_fault w (DbSave (restarted r x)) = None
                                then restarted r x else x) (rows w)"
    proof (simp only: map_map, rule map_cong [OF refl])
      fix x assume x: "x \<in> set (rows w)"
      show "((\<lambda>x. case map_of (zip (map ID fns) rs) (ID x) of
                    None \<Rightarrow> x
                  | Some r \<Rightarrow> if db_fault w (DbSave (restarted r x)) = None
                              then restarted r x else x)
              \<circ> (\<lambda>x. if ID x = ID fn then ?s else x)) x =
            (case map_of (zip (map ID (fn # fns)) (r # rs)) (ID x) of
                      None \<Rightarrow> x
                    | Some r \<Rightarrow> if db_fault w (DbSave (restarted r x)) = None
                                then restarted r x else x)"
      proof (cases "ID x = ID fn")
        case True
        then have xfn: "x = fn" using unique_row [OF dist x fn_in] by simp
        show ?thesis unfolding xfn using absent by (simp add: ID_restarted)
      next
        case False
        then show ?thesis by simp
      qed
    qed
    finally show ?thesis unfolding o .
  qed
  moreover have "length (filter running (rows (snd (restart_loop m w (fn # fns))))) + length (filter isl outs) =
              length (filter running (rows w))
          \<and> length (filter stopped (rows (snd (restart_loop m w (fn # fns))))) =
              length (filter stopped (rows w)) + length (filter isl outs)"
    if saves: "\<forall>fn. db_fault w (DbSave fn) = None"
      and dist: "distinct (map ID (rows w))"
      and sub: "set (fn # fns) \<subseteq> set (rows w)"
      and dfns: "distinct (map ID (fn # fns))"
      and run: "\<forall>f\<in>set (fn # fns). running f"
  proof -
    have fn_in: "fn \<in> set (rows w)" using sub by simp
    have r1: "rows ?w1 = map (\<lambda>x. if ID x = ID fn then restarted r fn else x) (rows w)"
      using restart_one_effect [OF c fn_in] saves by simp
    have ids: "map ID (rows ?w1) = map ID (rows w)"
      unfolding r1 by (simp add: comp_def ID_restarted cong: map_cong)
    have others: "\<forall>f\<in>set fns. ID f \<noteq> ID fn"
      using dfns by (metis distinct.simps(2) image_eqI list.simps(9) set_map)
    have sub1: "set fns \<subseteq> set (rows ?w1)"
    proof
      fix f assume f: "f \<in> set fns"
      then have "f \<in> set (rows w)" "ID f \<noteq> ID fn" using sub others by auto
      then show "f \<in> set (rows ?w1)" unfolding r1 by force
    qed
    have pre1: "(\<forall>fn. db_fault ?w1 (DbSave fn) = None) \<and> distinct (map ID (rows ?w1))
          \<and> set fns \<subseteq> set (rows ?w1) \<and> distinct (map ID fns) \<and> (\<forall>fn\<in>set fns. running fn)"
      using saves frame ids dist sub1 dfns run by simp
    note ih3 = ih [THEN conjunct2, THEN conjunct2, THEN conjunct2, rule_format, OF pre1]
    note ih_run = ih3 [THEN conjunct1]
    note ih_stop = ih3 [THEN conjunct2]
    have fn_run: "running fn" using run by simp
    have c_run: "length (filter running (rows ?w1)) + (if running fn then 1 else 0) =
        length (filter running (rows w)) + (if running (restarted r fn) then 1 else 0)"
      unfolding r1 using count_replace [OF dist fn_in, of running "restarted r fn"] by simp
    have c_stop: "length (filter stopped (rows ?w1)) + (if stopped fn then 1 else 0) =
        length (filter stopped (rows w)) + (if stopped (restarted r fn) then 1 else 0)"
      unfolding r1 using count_replace [OF dist fn_in, of stopped "restarted r fn"] by simp
    have st: "running (restarted r fn) = (\<not> isl r)" "stopped (restarted r fn) = isl r"
      using fn_run by (simp_all split: sum.splits)
    have "length (filter running (rows (snd (restart_loop m w (fn # fns))))) +
              length (filter isl (r # rs)) = length (filter running (rows w))"
      unfolding l using ih_run c_run st fn_run by (simp split: if_splits)
    moreover have "length (filter stopped (rows (snd (restart_loop m w (fn # fns))))) =
              length (filter stopped (rows w)) + length (filter isl (r # rs))"
      unfolding l using ih_stop c_stop st fn_run by (simp split: if_splits)
    ultimately show ?thesis unfolding o by simp
  qed
  ultimately show ?case by blast
qed

text \<open>
  C1, as amended.  When the query returns the \<open>N\<close> records with status \<open>running\<close> and
  the provisioning calls for them, asked in the order of the query with the stored code
  path and handler path of each, return the answers \<open>outs\<close>, \<open>M\<close> of them errors:
  \<open>RestartRunningFunctions\<close> returns success; the provisioning calls it makes are
  exactly those, one for each record, an error among the answers stopping nothing; the
  backend is left as the last of them left it.  It logs the opening line and, for each
  record in turn, the restart, the error of the provisioning if there is one, and the
  error of the database if the database refuses the save of the record.  With unique
  ids, each of the \<open>N\<close> rows whose save the database accepts becomes \<open>stopped\<close> if
  its provisioning failed and keeps \<open>running\<close> with the new handle and port if it
  succeeded, and each row whose save the database refuses stays as it was, as does every
  other row.  When the database accepts every \<open>Save\<close>, the rows that are
  \<open>running\<close> and the \<open>M\<close> failures add up to \<open>N\<close>, and \<open>M\<close> more rows than
  before are \<open>stopped\<close>.
\<close>

theorem restart_running_functions:
  assumes "db_Where_Status_Find w ''running'' = Inr fns"
    and "provision_in_turn (orchestrator m) (backend w) fns = (map Returns outs, b')"
  shows "length outs = length fns
     \<and> fst (RestartRunningFunctions m w) = Returns None
     \<and> provisions (events (snd (RestartRunningFunctions m w))) =
         provisions (events w) @ map2 provisioned fns (map Returns outs)
     \<and> backend (snd (RestartRunningFunctions m w)) = b'
     \<and> logged (events (snd (RestartRunningFunctions m w))) =
         logged (events w) @
         manager_log InfoLevel None [] ''restarting any previously running functions...'' #
         concat (map2 (\<lambda>fn r.
                   manager_log InfoLevel None [FStr ''function_id'' (ID fn)] ''restarting function'' #
                   (case r of
                      Inl e \<Rightarrow> [manager_log ErrorLevel (Some e) [FStr ''function_id'' (ID fn)]
                                  ''failed to restart function container'']
                    | Inr rr \<Rightarrow> []) @
                   (case db_fault w (DbSave (restarted r fn)) of
                      Some e \<Rightarrow> [manager_log ErrorLevel (Some e) [FStr ''function_id'' (ID fn)]
                                   ''failed to update function record on restart'']
                    | None \<Rightarrow> []))
                 fns outs)
     \<and> (distinct (map ID (rows w)) \<longrightarrow>
          rows (snd (RestartRunningFunctions m w)) =
            map (\<lambda>x. case map_of (zip (map ID fns) outs) (ID x) of
                        None \<Rightarrow> x
                      | Some r \<Rightarrow> if db_fault w (DbSave (restarted r x)) = None
                                  then restarted r x else x)
              (rows w))
     \<and> ((\<forall>fn. db_fault w (DbSave fn) = None) \<and> distinct (map ID (rows w)) \<longrightarrow>
          length (filter running (rows (snd (RestartRunningFunctions m w)))) +
              length (filter isl outs) = length fns
          \<and> length (filter stopped (rows (snd (RestartRunningFunctions m w)))) =
              length (filter stopped (rows w)) + length (filter isl outs))"
proof -
  let ?w0 = "lg w InfoLevel None [] ''restarting any previously running functions...''"
  have fns: "fns = filter running (rows w)"
    using assms(1) by (simp add: db_Where_Status_Find_def split: option.splits)
  have q0: "db_Where_Status_Find ?w0 ''running'' = Inr fns"
    using assms(1) by (simp add: db_Where_Status_Find_def lg_def split: option.splits)
  have w0: "rows ?w0 = rows w" "db_fault ?w0 = db_fault w" "backend ?w0 = backend w"
    "provisions (events ?w0) = provisions (events w)"
    "logged (events ?w0) =
       logged (events w) @
       [manager_log InfoLevel None [] ''restarting any previously running functions...'']"
    by (simp_all add: lg_def provisions_append logged_append)
  note calls = restart_loop_calls [of m ?w0 fns "map Returns outs" b', unfolded w0(3), OF assms(2)]
  note eff = restart_loop_effect [of m ?w0 fns outs b', unfolded w0(3), OF assms(2)]
  have run: "RestartRunningFunctions m w = (Returns None, snd (restart_loop m ?w0 fns))"
    using q0 calls [THEN conjunct1]
    by (auto simp add: RestartRunningFunctions_def Let_def first_panic_Returns split: prod.splits)
  have s: "snd (RestartRunningFunctions m w) = snd (restart_loop m ?w0 fns)" using run by simp
  have len: "length outs = length fns" using eff by simp
  have dfns: "distinct (map ID fns)" if "distinct (map ID (rows w))"
    unfolding fns using that by (rule distinct_map_filter)
  have "rows (snd (RestartRunningFunctions m w)) =
            map (\<lambda>x. case map_of (zip (map ID fns) outs) (ID x) of
                        None \<Rightarrow> x
                      | Some r \<Rightarrow> if db_fault w (DbSave (restarted r x)) = None
                                  then restarted r x else x)
              (rows w)"
    if dist: "distinct (map ID (rows w))"
  proof -
    have pre: "distinct (map ID (rows ?w0)) \<and> set fns \<subseteq> set (rows ?w0) \<and> distinct (map ID fns)"
      using dist dfns w0 fns by auto
    show ?thesis
      unfolding s
      using eff [THEN conjunct2, THEN conjunct2, THEN conjunct1, rule_format, OF pre]
      unfolding w0(1) w0(2) .
  qed
  moreover have "length (filter running (rows (snd (RestartRunningFunctions m w)))) +
              length (filter isl outs) = length fns
          \<and> length (filter stopped (rows (snd (RestartRunningFunctions m w)))) =
              length (filter stopped (rows w)) + length (filter isl outs)"
    if saves: "\<forall>fn. db_fault w (DbSave fn) = None" and dist: "distinct (map ID (rows w))"
  proof -
    have pre: "(\<forall>fn. db_fault ?w0 (DbSave fn) = None) \<and> distinct (map ID (rows ?w0))
          \<and> set fns \<subseteq> set (rows ?w0) \<and> distinct (map ID fns) \<and> (\<forall>fn\<in>set fns. running fn)"
      using saves dist dfns w0 fns by auto
    note r = eff [THEN conjunct2, THEN conjunct2, THEN conjunct2, rule_format, OF pre]
    have b: "length (filter running (rows (snd (RestartRunningFunctions m w)))) +
              length (filter isl outs) = length fns"
      unfolding s using r [THEN conjunct1] fns w0(1) by simp
    have c: "length (filter stopped (rows (snd (RestartRunningFunctions m w)))) =
              length (filter stopped (rows w)) + length (filter isl outs)"
      unfolding s using r [THEN conjunct2] w0(1) by simp
    show ?thesis using b c by (intro conjI)
  qed
  moreover have "fst (RestartRunningFunctions m w) = Returns None" using run by simp
  moreover have "provisions (events (snd (RestartRunningFunctions m w))) =
         provisions (events w) @ map2 provisioned fns (map Returns outs)"
    unfolding s using calls w0(4) by simp
  moreover have "backend (snd (RestartRunningFunctions m w)) = b'"
    unfolding s using calls by simp
  moreover have "logged (events (snd (RestartRunningFunctions m w))) =
         logged (events w) @
         manager_log InfoLevel None [] ''restarting any previously running functions...'' #
         concat (map2 (\<lambda>fn r.
                   manager_log InfoLevel None [FStr ''function_id'' (ID fn)] ''restarting function'' #
                   (case r of
                      Inl e \<Rightarrow> [manager_log ErrorLevel (Some e) [FStr ''function_id'' (ID fn)]
                                  ''failed to restart function container'']
                    | Inr rr \<Rightarrow> []) @
                   (case db_fault w (DbSave (restarted r fn)) of
                      Some e \<Rightarrow> [manager_log ErrorLevel (Some e) [FStr ''function_id'' (ID fn)]
                                   ''failed to update function record on restart'']
                    | None \<Rightarrow> []))
                 fns outs)"
    unfolding s using eff [THEN conjunct2, THEN conjunct1] unfolding w0(2) w0(5) by simp
  ultimately show ?thesis using len by blast
qed

text \<open>
  Two running records; the provisioning of the first one fails, which is logged, and the
  second one is provisioned all the same.  The database accepts the saves: the first
  record is \<open>stopped\<close>, the second one is \<open>running\<close> with its new handle and port.
\<close>

theorem restart_running_functions_witness:
  "db_Where_Status_Find world0 ''running'' = Inr [fn1, fn3]
   \<and> provision_in_turn (orchestrator mgr0) (backend world0) [fn1, fn3] =
       (map Returns
          [Inl (Wrapped ''docker create'' (External ''no space left'')),
           Inr \<lparr>rr_ContainerID = ''new-f3'', rr_HostPort = 40001\<rparr>], 2)
   \<and> (\<forall>fn. db_fault world0 (DbSave fn) = None) \<and> distinct (map ID (rows world0))
   \<and> fst (RestartRunningFunctions mgr0 world0) = Returns None
   \<and> map (\<lambda>(f, c, h, r). f) (provisions (events (snd (RestartRunningFunctions mgr0 world0)))) =
       [''f1'', ''f3'']
   \<and> backend (snd (RestartRunningFunctions mgr0 world0)) = 2
   \<and> logged (events (snd (RestartRunningFunctions mgr0 world0))) =
       [manager_log InfoLevel None [] ''restarting any previously running functions...'',
        manager_log InfoLevel None [FStr ''function_id'' ''f1''] ''restarting function'',
        manager_log ErrorLevel (Some (Wrapped ''docker create'' (External ''no space left'')))
          [FStr ''function_id'' ''f1''] ''failed to restart function container'',
        manager_log InfoLevel None [FStr ''function_id'' ''f3''] ''restarting function'']
   \<and> map (\<lambda>r. (ID r, ContainerID r, HostPort r, Status r))
       (rows (snd (RestartRunningFunctions mgr0 world0))) =
       [(''f1'', ''c1'', 32768, ''stopped''), (''f2'', ''c2'', 32769, ''stopped''),
        (''f3'', ''new-f3'', 40001, ''running'')]
   \<and> length (filter running (rows (snd (RestartRunningFunctions mgr0 world0)))) + 1 = 2
   \<and> length (filter stopped (rows (snd (RestartRunningFunctions mgr0 world0)))) = 1 + 1"
proof -
  let ?outs = "[Inl (Wrapped ''docker create'' (External ''no space left'')),
                Inr \<lparr>rr_ContainerID = ''new-f3'', rr_HostPort = 40001\<rparr>]"
  have q: "db_Where_Status_Find world0 ''running'' = Inr [fn1, fn3]"
    by (simp add: db_Where_Status_Find_def world0_def fn1_def fn2_def fn3_def)
  have p: "provision_in_turn (orchestrator mgr0) (backend world0) [fn1, fn3] =
       (map Returns ?outs, 2)"
    by (simp add: world0_def mgr0_def flaky_def fn1_def fn3_def)
  have s: "\<forall>fn. db_fault world0 (DbSave fn) = None" by (simp add: world0_def)
  have d: "distinct (map ID (rows world0))" by (simp add: world0_def fn1_def fn2_def fn3_def)
  have e: "events world0 = []" "rows world0 = [fn1, fn2, fn3]"
    by (simp_all add: world0_def)
  note t = restart_running_functions [OF q p]
  note t6 = t [THEN conjunct2, THEN conjunct2, THEN conjunct2, THEN conjunct2, THEN conjunct2,
      THEN conjunct1, rule_format, OF d]
  note t7 = t [THEN conjunct2, THEN conjunct2, THEN conjunct2, THEN conjunct2, THEN conjunct2,
      THEN conjunct2, rule_format, OF conjI [OF s d]]
  have "fst (RestartRunningFunctions mgr0 world0) = Returns None"
    using t by simp
  moreover have "map (\<lambda>(f, c, h, r). f)
      (provisions (events (snd (RestartRunningFunctions mgr0 world0)))) = [''f1'', ''f3'']"
    using t [THEN conjunct2, THEN conjunct2, THEN conjunct1] e(1)
    by (simp add: fn1_def fn3_def)
  moreover have "backend (snd (RestartRunningFunctions mgr0 world0)) = 2"
    using t by simp
  moreover have "logged (events (snd (RestartRunningFunctions mgr0 world0))) =
       [manager_log InfoLevel None [] ''restarting any previously running functions...'',
        manager_log InfoLevel None [FStr ''function_id'' ''f1''] ''restarting function'',
        manager_log ErrorLevel (Some (Wrapped ''docker create'' (External ''no space left'')))
          [FStr ''function_id'' ''f1''] ''failed to restart function container'',
        manager_log InfoLevel None [FStr ''function_id'' ''f3''] ''restarting function'']"
    using t [THEN conjunct2, THEN conjunct2, THEN conjunct2, THEN conjunct2, THEN conjunct1]
      e(1) s
    by (simp add: fn1_def fn3_def)
  moreover have "map (\<lambda>r. (ID r, ContainerID r, HostPort r, Status r))
       (rows (snd (RestartRunningFunctions mgr0 world0))) =
       [(''f1'', ''c1'', 32768, ''stopped''), (''f2'', ''c2'', 32769, ''stopped''),
        (''f3'', ''new-f3'', 40001, ''running'')]"
    using t6 e(2) s by (simp add: fn1_def fn2_def fn3_def)
  moreover have "length (filter running (rows (snd (RestartRunningFunctions mgr0 world0)))) + 1 = 2"
    using t7 [THEN conjunct1] by simp
  moreover have "length (filter stopped (rows (snd (RestartRunningFunctions mgr0 world0)))) = 1 + 1"
    using t7 [THEN conjunct2] e(2) by (simp add: fn1_def fn2_def fn3_def)
  ultimately show ?thesis using q p s d by blast
qed

text \<open>
  The claim as stated fails: the provisioning of \<open>f1\<close> fails (\<open>M = 1\<close> of
  \<open>N = 2\<close>) and the database refuses every \<open>Save\<close>; each refusal is logged and
  has no other effect, and the store is left with both records still \<open>running\<close> under
  their old handles and none of them \<open>stopped\<close>.
\<close>

theorem restart_save_refused:
  "fst (RestartRunningFunctions mgr0 world_save_refused) = Returns None
   \<and> map (\<lambda>(f, c, h, r). (f, r))
       (provisions (events (snd (RestartRunningFunctions mgr0 world_save_refused)))) =
       [(''f1'', Returns (Inl (Wrapped ''docker create'' (External ''no space left'')))),
        (''f3'', Returns (Inr \<lparr>rr_ContainerID = ''new-f3'', rr_HostPort = 40001\<rparr>))]
   \<and> rows (snd (RestartRunningFunctions mgr0 world_save_refused)) = [fn1, fn2, fn3]
   \<and> map Status [fn1, fn2, fn3] = [''running'', ''stopped'', ''running'']
   \<and> logged (events (snd (RestartRunningFunctions mgr0 world_save_refused))) =
       [manager_log InfoLevel None [] ''restarting any previously running functions...'',
        manager_log InfoLevel None [FStr ''function_id'' ''f1''] ''restarting function'',
        manager_log ErrorLevel (Some (Wrapped ''docker create'' (External ''no space left'')))
          [FStr ''function_id'' ''f1''] ''failed to restart function container'',
        manager_log ErrorLevel (Some (External ''connection lost''))
          [FStr ''function_id'' ''f1''] ''failed to update function record on restart'',
        manager_log InfoLevel None [FStr ''function_id'' ''f3''] ''restarting function'',
        manager_log ErrorLevel (Some (External ''connection lost''))
          [FStr ''function_id'' ''f3''] ''failed to update function record on restart'']"
  by (simp add: RestartRunningFunctions_def restart_one_def call_RunWorker_def lg_def db_Save_def
      db_Where_Status_Find_def world_save_refused_def world0_def mgr0_def flaky_def
      fn1_def fn2_def fn3_def Let_def)

text \<open>When the query fails, the restart returns that error wrapped and provisions nothing.\<close>

lemma restart_query_fails:
  assumes "db_Where_Status_Find w ''running'' = Inl e"
  shows "fst (RestartRunningFunctions m w) =
           Returns (Some (Wrapped ''could not query running functions'' e))
     \<and> provisions (events (snd (RestartRunningFunctions m w))) = provisions (events w)
     \<and> backend (snd (RestartRunningFunctions m w)) = backend w
     \<and> rows (snd (RestartRunningFunctions m w)) = rows w"
proof -
  have "db_Where_Status_Find
          (lg w InfoLevel None [] ''restarting any previously running functions...'')
          ''running'' = Inl e"
    using assms by (simp add: db_Where_Status_Find_def lg_def split: option.splits)
  then show ?thesis
    by (simp add: RestartRunningFunctions_def Let_def lg_def provisions_append)
qed

text \<open>
  A provisioning call that panics ends the restart with that panic: the calls made are
  those up to it, and the records after it are not provisioned.  \<open>RunWorker\<close> of the
  Docker adapter panics when the inspected container lists no binding for its port.
\<close>

lemma restart_provisioning_panics:
  assumes "db_Where_Status_Find w ''running'' = Inr fns"
    and "provision_in_turn (orchestrator m) (backend w) fns = (outs, b')"
    and "first_panic outs = Some p"
  shows "fst (RestartRunningFunctions m w) = Panics p
     \<and> provisions (events (snd (RestartRunningFunctions m w))) =
         provisions (events w) @ map2 provisioned fns outs
     \<and> backend (snd (RestartRunningFunctions m w)) = b'"
proof -
  let ?w0 = "lg w InfoLevel None [] ''restarting any previously running functions...''"
  have q0: "db_Where_Status_Find ?w0 ''running'' = Inr fns"
    using assms(1) by (simp add: db_Where_Status_Find_def lg_def split: option.splits)
  have w0: "backend ?w0 = backend w" "provisions (events ?w0) = provisions (events w)"
    by (simp_all add: lg_def provisions_append)
  note calls = restart_loop_calls [of m ?w0 fns outs b', unfolded w0(1), OF assms(2)]
  have run: "RestartRunningFunctions m w = (Panics p, snd (restart_loop m ?w0 fns))"
    using q0 calls [THEN conjunct1] assms(3)
    by (auto simp add: RestartRunningFunctions_def Let_def split: prod.splits)
  show ?thesis
    unfolding run using calls w0(2) by simp
qed

section \<open>AddFunction\<close>

lemma add_reaches_provisioning:
  assumes "upload_accepted m w funcID now functionName code"
  shows "AddFunction m w funcID now functionName code =
     (let fn = new_Function m funcID now functionName;
          w4 = w\<lparr>files := (files w)(codeFilePath_of m funcID \<mapsto> code), rows := rows w @ [fn]\<rparr>
      in (case call_RunWorker m w4 (ID fn) (CodePath fn) (HandlerPath fn) of
         (Panics p, w5) \<Rightarrow> (Panics p, w5)
       | (Returns (Inl err), w5) \<Rightarrow>
           (let w6 = lg w5 ErrorLevel (Some err) [FStr ''function_id'' (ID fn)]
                       ''failed to start container, rolling back'';
                fn1 = fn\<lparr>Status := ''error''\<rparr>
            in (case db_Save w6 fn1 of
                  (ignored, w7) \<Rightarrow> (Returns (Inl (Wrapped ''start worker container'' err)), w7)))
       | (Returns (Inr runResult), w5) \<Rightarrow>
           (let fn1 = fn\<lparr>ContainerID := rr_ContainerID runResult,
                         HostPort := rr_HostPort runResult,
                         Status := ''running''\<rparr>
            in (case db_Save w5 fn1 of
                  (Some err, w6) \<Rightarrow>
                    (let w7 = lg w6 ErrorLevel (Some err) [FStr ''function_id'' (ID fn1)]
                                ''failed to save container details to db''
                     in (case call_StopAndRemoveContainer m w7 (ContainerID fn1) of
                           (Panics p, w8) \<Rightarrow> (Panics p, w8)
                         | (Returns ignored, w8) \<Rightarrow> (Returns (Inl err), w8)))
                | (None, w6) \<Rightarrow> (Returns (Inr fn1), w6)))))"
  using assms
  by (simp add: upload_accepted_def AddFunction_def os_MkdirAll_def os_Create_def io_Copy_def
      db_Create_def Let_def list_ex_iff list_all_iff new_Function_def)


lemma First_last:
  "list_all (\<lambda>r. ID r \<noteq> i) xs \<Longrightarrow> ID fn = i \<Longrightarrow> find (\<lambda>r. ID r = i) (xs @ [fn]) = Some fn"
  by (induction xs) auto

text \<open>
  C4, as amended.  When the upload is accepted and the provisioning call fails, \<open>AddFunction\<close>
  logs the failure, returns the provisioning error (wrapped), tears nothing down, and
  leaves the uploaded code in its file and the record as the last row, with no handle and
  the host port 0.
  It then saves the record with status \<open>error\<close> and ignores the outcome of that save:
  the stored status is \<open>error\<close> when the database accepts the save and stays
  \<open>creating\<close> when it refuses.  Either way a later \<open>ExecuteFunction\<close> for the id
  (whose lookup the database answers) fails with \<open>NotRunningError\<close> and changes nothing.
\<close>

theorem add_function_provision_fails:
  assumes "upload_accepted m w funcID now functionName code"
    and "RunWorker (orchestrator m) (backend w) funcID (codeDir_of m funcID)
           (''function.handler.'' @ functionName) = (Returns (Inl err), b')"
  shows "fst (AddFunction m w funcID now functionName code) =
           Returns (Inl (Wrapped ''start worker container'' err))
     \<and> files (snd (AddFunction m w funcID now functionName code)) (codeFilePath_of m funcID) = Some code
     \<and> teardowns (events (snd (AddFunction m w funcID now functionName code))) = teardowns (events w)
     \<and> backend (snd (AddFunction m w funcID now functionName code)) = b'
     \<and> logged (events (snd (AddFunction m w funcID now functionName code))) =
           logged (events w) @
           [manager_log ErrorLevel (Some err) [FStr ''function_id'' funcID]
              ''failed to start container, rolling back'']
     \<and> rows (snd (AddFunction m w funcID now functionName code)) =
           rows w @
           [if db_fault w (DbSave ((new_Function m funcID now functionName)\<lparr>Status := ''error''\<rparr>)) = None
            then (new_Function m funcID now functionName)\<lparr>Status := ''error''\<rparr>
            else new_Function m funcID now functionName]
     \<and> ContainerID (last (rows (snd (AddFunction m w funcID now functionName code)))) = []
     \<and> HostPort (last (rows (snd (AddFunction m w funcID now functionName code)))) = 0
     \<and> (db_fault w (DbFirst funcID) = None \<longrightarrow>
          (\<forall>payload.
             ExecuteFunction lib m (snd (AddFunction m w funcID now functionName code)) funcID payload =
               (Inl (NotRunningError funcID), snd (AddFunction m w funcID now functionName code))))"
proof -
  let ?fn = "new_Function m funcID now functionName"
  let ?A = "AddFunction m w funcID now functionName code"
  have fresh: "list_all (\<lambda>r. ID r \<noteq> funcID) (rows w)"
    using assms(1) by (simp add: upload_accepted_def)
  have fn: "ID ?fn = funcID" "CodePath ?fn = codeDir_of m funcID"
    "HandlerPath ?fn = ''function.handler.'' @ functionName" "HostPort ?fn = 0"
    "Status ?fn = ''creating''" "ContainerID ?fn = []"
    by (simp_all add: new_Function_def)
  have A: "?A =
      (Returns (Inl (Wrapped ''start worker container'' err)),
       snd (db_Save
         (lg (w\<lparr>files := (files w)(codeFilePath_of m funcID \<mapsto> code), rows := rows w @ [?fn],
               backend := b',
               events := events w @ [CalledRunWorker funcID (codeDir_of m funcID)
                                       (''function.handler.'' @ functionName)
                                       (Returns (Inl err))]\<rparr>)
            ErrorLevel (Some err) [FStr ''function_id'' funcID]
            ''failed to start container, rolling back'')
         (?fn\<lparr>Status := ''error''\<rparr>)))"
    using assms(2)
    by (simp add: add_reaches_provisioning [OF assms(1)] call_RunWorker_def fn Let_def
        split: prod.splits)
  have r: "rows (snd ?A) =
           rows w @ [if db_fault w (DbSave (?fn\<lparr>Status := ''error''\<rparr>)) = None
                     then ?fn\<lparr>Status := ''error''\<rparr> else ?fn]"
    unfolding A using fresh fn(1)
    by (simp add: db_Save_def lg_def replace_absent list_all_iff list_ex_iff split: option.splits)
  have f: "files (snd ?A) (codeFilePath_of m funcID) = Some code"
    unfolding A by (simp add: db_Save_def lg_def split: option.splits)
  have t: "teardowns (events (snd ?A)) = teardowns (events w)"
    unfolding A by (simp add: db_Save_def lg_def teardowns_append split: option.splits)
  have d: "db_fault (snd ?A) = db_fault w"
    unfolding A by (simp add: db_Save_def lg_def split: option.splits)
  have b: "backend (snd ?A) = b'"
    unfolding A by (simp add: db_Save_def lg_def split: option.splits)
  have g: "logged (events (snd ?A)) =
           logged (events w) @
           [manager_log ErrorLevel (Some err) [FStr ''function_id'' funcID]
              ''failed to start container, rolling back'']"
    unfolding A by (simp add: db_Save_def lg_def logged_append split: option.splits)
  have e: "ExecuteFunction lib m (snd ?A) funcID payload = (Inl (NotRunningError funcID), snd ?A)"
    if "db_fault w (DbFirst funcID) = None" for payload
  proof -
    let ?x = "if db_fault w (DbSave (?fn\<lparr>Status := ''error''\<rparr>)) = None
              then ?fn\<lparr>Status := ''error''\<rparr> else ?fn"
    have "ID ?x = funcID" using fn(1) by simp
    then have "db_First (snd ?A) funcID = Inr ?x"
      using that d r First_last [OF fresh, of ?x] by (simp add: db_First_def)
    moreover have "Status ?x \<noteq> ''running'' \<or> HostPort ?x = 0" using fn by simp
    ultimately show ?thesis by (simp add: ExecuteFunction_def)
  qed
  have l: "ContainerID (last (rows (snd ?A))) = []" "HostPort (last (rows (snd ?A))) = 0"
    unfolding r using fn by simp_all
  show ?thesis using A r f t b g e l by simp
qed

text \<open>The orchestrator refuses to provision \<open>f9\<close>; the database accepts every request.\<close>

theorem add_function_provision_fails_witness:
  "upload_accepted mgr0 world0 ''f9'' 7 ''echo'' ''def echo(p): return p''
   \<and> fst (AddFunction mgr0 world0 ''f9'' 7 ''echo'' ''def echo(p): return p'') =
       Returns (Inl (Wrapped ''start worker container''
                  (Wrapped ''docker create'' (External ''no space left''))))
   \<and> map Status (rows (snd (AddFunction mgr0 world0 ''f9'' 7 ''echo'' ''def echo(p): return p''))) =
       [''running'', ''stopped'', ''running'', ''error'']
   \<and> ExecuteFunction lib0 mgr0
         (snd (AddFunction mgr0 world0 ''f9'' 7 ''echo'' ''def echo(p): return p'')) ''f9'' ''{}'' =
       (Inl (NotRunningError ''f9''),
        snd (AddFunction mgr0 world0 ''f9'' 7 ''echo'' ''def echo(p): return p''))"
  using add_function_provision_fails [where m = mgr0 and w = world0 and funcID = "''f9''"
      and now = 7 and functionName = "''echo''" and code = "''def echo(p): return p''"
      and err = "Wrapped ''docker create'' (External ''no space left'')" and b' = 1
      and lib = lib0]
  by (simp add: upload_accepted_def world0_def mgr0_def flaky_def codeDir_of_def
      codeFilePath_of_def filepath_Join_def filepath_Clean_def new_Function_def fn1_def fn2_def
      fn3_def)

text \<open>
  The claim as stated fails: the provisioning of \<open>f9\<close> fails and the database refuses
  the save of the \<open>error\<close> status, whose result \<open>AddFunction\<close> does not read; the
  record stays stored with status \<open>creating\<close>.
\<close>

theorem add_function_error_save_refused:
  "fst (AddFunction mgr0 world_save_refused ''f9'' 7 ''echo'' ''def echo(p): return p'') =
       Returns (Inl (Wrapped ''start worker container''
                  (Wrapped ''docker create'' (External ''no space left''))))
   \<and> map (\<lambda>r. (ID r, Status r))
         (rows (snd (AddFunction mgr0 world_save_refused ''f9'' 7 ''echo'' ''def echo(p): return p''))) =
       [(''f1'', ''running''), (''f2'', ''stopped''), (''f3'', ''running''), (''f9'', ''creating'')]"
  by (simp add: AddFunction_def os_MkdirAll_def os_Create_def io_Copy_def db_Create_def
      db_Save_def call_RunWorker_def lg_def Let_def world_save_refused_def world0_def mgr0_def
      flaky_def codeDir_of_def codeFilePath_of_def filepath_Join_def filepath_Clean_def
      new_Function_def fn1_def fn2_def fn3_def)

text \<open>
  C5.  When the upload is accepted and the provisioning call succeeds with the result
  \<open>rr\<close>: if the database refuses the save of the running record, \<open>AddFunction\<close> logs
  the refusal and calls the teardown once, with the handle just returned and in the
  backend state that the provisioning left, and whatever the teardown returns, success or
  error, it returns the database's error, the record staying stored as it was created
  (only a teardown that panics ends \<open>AddFunction\<close> with that panic); if the database
  accepts the save, it returns the record with status \<open>running\<close>, the handle and the
  port of \<open>rr\<close>, which is then the stored row, and tears nothing down.
\<close>

theorem add_function_final_persist:
  assumes "upload_accepted m w funcID now functionName code"
    and "RunWorker (orchestrator m) (backend w) funcID (codeDir_of m funcID)
           (''function.handler.'' @ functionName) = (Returns (Inr rr), b')"
  shows "(\<forall>e. db_fault w (DbSave ((new_Function m funcID now functionName)
                  \<lparr>ContainerID := rr_ContainerID rr, HostPort := rr_HostPort rr,
                   Status := ''running''\<rparr>)) = Some e \<longrightarrow>
            fst (AddFunction m w funcID now functionName code) =
              (case fst (StopAndRemoveContainer (orchestrator m) b' (rr_ContainerID rr)) of
                 Returns ignored \<Rightarrow> Returns (Inl e)
               | Panics p \<Rightarrow> Panics p)
            \<and> teardowns (events (snd (AddFunction m w funcID now functionName code))) =
                teardowns (events w) @
                [(rr_ContainerID rr,
                  fst (StopAndRemoveContainer (orchestrator m) b' (rr_ContainerID rr)))]
            \<and> backend (snd (AddFunction m w funcID now functionName code)) =
                snd (StopAndRemoveContainer (orchestrator m) b' (rr_ContainerID rr))
            \<and> logged (events (snd (AddFunction m w funcID now functionName code))) =
                logged (events w) @
                [manager_log ErrorLevel (Some e) [FStr ''function_id'' funcID]
                   ''failed to save container details to db'']
            \<and> rows (snd (AddFunction m w funcID now functionName code)) =
                rows w @ [new_Function m funcID now functionName])
     \<and> (db_fault w (DbSave ((new_Function m funcID now functionName)
                  \<lparr>ContainerID := rr_ContainerID rr, HostPort := rr_HostPort rr,
                   Status := ''running''\<rparr>)) = None \<longrightarrow>
            fst (AddFunction m w funcID now functionName code) =
              Returns (Inr ((new_Function m funcID now functionName)
                     \<lparr>ContainerID := rr_ContainerID rr, HostPort := rr_HostPort rr,
                      Status := ''running''\<rparr>))
            \<and> rows (snd (AddFunction m w funcID now functionName code)) =
                rows w @ [(new_Function m funcID now functionName)
                            \<lparr>ContainerID := rr_ContainerID rr, HostPort := rr_HostPort rr,
                             Status := ''running''\<rparr>]
            \<and> teardowns (events (snd (AddFunction m w funcID now functionName code))) =
                teardowns (events w)
            \<and> backend (snd (AddFunction m w funcID now functionName code)) = b')"
proof -
  let ?fn = "new_Function m funcID now functionName"
  let ?fn1 = "?fn\<lparr>ContainerID := rr_ContainerID rr, HostPort := rr_HostPort rr, Status := ''running''\<rparr>"
  let ?A = "AddFunction m w funcID now functionName code"
  let ?w5 = "w\<lparr>files := (files w)(codeFilePath_of m funcID \<mapsto> code), rows := rows w @ [?fn],
               backend := b',
               events := events w @ [CalledRunWorker funcID (codeDir_of m funcID)
                                       (''function.handler.'' @ functionName)
                                       (Returns (Inr rr))]\<rparr>"
  have fresh: "list_all (\<lambda>r. ID r \<noteq> funcID) (rows w)"
    using assms(1) by (simp add: upload_accepted_def)
  have fn: "ID ?fn = funcID" "CodePath ?fn = codeDir_of m funcID"
    "HandlerPath ?fn = ''function.handler.'' @ functionName"
    by (simp_all add: new_Function_def)
  have A: "?A =
      (case db_Save ?w5 ?fn1 of
         (Some err, w6) \<Rightarrow>
           (let w7 = lg w6 ErrorLevel (Some err) [FStr ''function_id'' (ID ?fn1)]
                       ''failed to save container details to db''
            in (case call_StopAndRemoveContainer m w7 (ContainerID ?fn1) of
                  (Panics p, w8) \<Rightarrow> (Panics p, w8)
                | (Returns ignored, w8) \<Rightarrow> (Returns (Inl err), w8)))
       | (None, w6) \<Rightarrow> (Returns (Inr ?fn1), w6))"
    using assms(2)
    by (simp add: add_reaches_provisioning [OF assms(1)] call_RunWorker_def fn Let_def
        split: prod.splits)
  have refused: "fst ?A =
        (case fst (StopAndRemoveContainer (orchestrator m) b' (rr_ContainerID rr)) of
           Returns ignored \<Rightarrow> Returns (Inl e)
         | Panics p \<Rightarrow> Panics p)
      \<and> teardowns (events (snd ?A)) =
          teardowns (events w) @
          [(rr_ContainerID rr, fst (StopAndRemoveContainer (orchestrator m) b' (rr_ContainerID rr)))]
      \<and> backend (snd ?A) = snd (StopAndRemoveContainer (orchestrator m) b' (rr_ContainerID rr))
      \<and> logged (events (snd ?A)) =
          logged (events w) @
          [manager_log ErrorLevel (Some e) [FStr ''function_id'' funcID]
             ''failed to save container details to db'']
      \<and> rows (snd ?A) = rows w @ [?fn]"
    if "db_fault w (DbSave ?fn1) = Some e" for e
    unfolding A using that fn(1)
    by (simp add: db_Save_def lg_def call_StopAndRemoveContainer_def teardowns_append
        logged_append Let_def split: prod.splits outcome.splits)
  have accepted: "fst ?A = Returns (Inr ?fn1) \<and> rows (snd ?A) = rows w @ [?fn1]
      \<and> teardowns (events (snd ?A)) = teardowns (events w) \<and> backend (snd ?A) = b'"
    if "db_fault w (DbSave ?fn1) = None"
    unfolding A using that fresh fn(1)
    by (simp add: db_Save_def teardowns_append replace_absent list_all_iff list_ex_iff)
  show ?thesis using refused accepted by blast
qed

text \<open>
  The provisioning of \<open>f7\<close> succeeds; the database refuses the save, and the failing
  teardown of the new handle does not change the error returned; or the database accepts
  the save.
\<close>

theorem add_function_final_persist_witness:
  "upload_accepted mgr0 world_save_refused ''f7'' 7 ''echo'' ''def echo(p): return p''
   \<and> fst (AddFunction mgr0 world_save_refused ''f7'' 7 ''echo'' ''def echo(p): return p'') =
       Returns (Inl (External ''connection lost''))
   \<and> teardowns (events (snd (AddFunction mgr0 world_save_refused ''f7'' 7 ''echo''
         ''def echo(p): return p''))) = [(''new-f7'', Returns (Some (External ''daemon unreachable'')))]
   \<and> backend (snd (AddFunction mgr0 world_save_refused ''f7'' 7 ''echo''
         ''def echo(p): return p'')) = 2
   \<and> upload_accepted mgr0 world0 ''f7'' 7 ''echo'' ''def echo(p): return p''
   \<and> map_outcome (map_sum id (\<lambda>fn. (ID fn, ContainerID fn, HostPort fn, Status fn)))
         (fst (AddFunction mgr0 world0 ''f7'' 7 ''echo'' ''def echo(p): return p'')) =
       Returns (Inr (''f7'', ''new-f7'', 40000, ''running''))
   \<and> teardowns (events (snd (AddFunction mgr0 world0 ''f7'' 7 ''echo''
         ''def echo(p): return p''))) = []"
  using add_function_final_persist [where m = mgr0 and w = world_save_refused and funcID = "''f7''"
      and now = 7 and functionName = "''echo''" and code = "''def echo(p): return p''"
      and rr = "\<lparr>rr_ContainerID = ''new-f7'', rr_HostPort = 40000\<rparr>" and b' = 1]
    add_function_final_persist [where m = mgr0 and w = world0 and funcID = "''f7''"
      and now = 7 and functionName = "''echo''" and code = "''def echo(p): return p''"
      and rr = "\<lparr>rr_ContainerID = ''new-f7'', rr_HostPort = 40000\<rparr>" and b' = 1]
  by (simp add: upload_accepted_def world_save_refused_def world0_def mgr0_def flaky_def
      codeDir_of_def codeFilePath_of_def filepath_Join_def filepath_Clean_def new_Function_def
      fn1_def fn2_def fn3_def)

text \<open>
  A provisioning call that panics ends \<open>AddFunction\<close> with that panic: the uploaded code
  and the record stay, the record with status \<open>creating\<close>, and nothing is logged.
\<close>

lemma add_function_provisioning_panics:
  assumes "upload_accepted m w funcID now functionName code"
    and "RunWorker (orchestrator m) (backend w) funcID (codeDir_of m funcID)
           (''function.handler.'' @ functionName) = (Panics p, b')"
  shows "AddFunction m w funcID now functionName code =
     (Panics p,
      w\<lparr>files := (files w)(codeFilePath_of m funcID \<mapsto> code),
        rows := rows w @ [new_Function m funcID now functionName],
        backend := b',
        events := events w @ [CalledRunWorker funcID (codeDir_of m funcID)
                                (''function.handler.'' @ functionName) (Panics p)]\<rparr>)"
  using assms(2)
  by (simp add: add_reaches_provisioning [OF assms(1)] call_RunWorker_def new_Function_def Let_def)

section \<open>A running record without a port\<close>

lemma docker_RunWorker_inspected:
  assumes "ensureImage c w0 (WorkerImage (docker_cfg c)) = (None, w1)"
    and "ContainerRemove (cli c) (daemon w1) (''faas-worker-'' @ funcID)
           \<lparr>Force = True, RemoveVolumes = False\<rparr> = (r2, d2)"
    and "ContainerCreate (cli c) d2
           \<lparr>Image = WorkerImage (docker_cfg c),
            Env = [''HANDLER_FUNCTION='' @ handlerPath],
            ExposedPorts = [''8000/tcp''],
            Binds = [codePath @ '':/app/function''],
            PortBindings = [(''8000/tcp'', [\<lparr>HostIP = ''0.0.0.0'', pb_HostPort = []\<rparr>])],
            Name = ''faas-worker-'' @ funcID\<rparr> = (Inr respID, d3)"
    and "ContainerStart (cli c) d3 respID = (None, d4)"
    and "ContainerInspect (cli c) d4 respID = (Inr ports, d5)"
  shows "fst (docker_RunWorker c w0 funcID codePath handlerPath) =
     (case (case ports ''8000/tcp'' of None \<Rightarrow> [] | Some bs \<Rightarrow> bs) of
        [] \<Rightarrow> Panics ''index out of range [0] with length 0''
      | b # bs \<Rightarrow>
          Returns (Inr \<lparr>rr_ContainerID = respID, rr_HostPort = fst (strconv_Atoi (pb_HostPort b))\<rparr>))"
  using assms
  by (simp add: docker_RunWorker_def Let_def split: list.splits option.splits)

text \<open>
  C10.  Take a manager whose orchestrator answers as the Docker adapter does on every call
  on which the adapter returns, and a daemon that has the image, creates and starts the container and
  answers the inspection with the port map \<open>ports\<close>.  \<open>RunWorker\<close> reads
  \<open>ports["8000/tcp"][0]\<close> with no presence check: when the key is missing or its list
  is empty it panics.  When the list has a first binding whose host port does not parse
  (\<open>strconv.Atoi\<close> gives 0 and an error, which is discarded), \<open>RunWorker\<close> succeeds
  with host port 0; \<open>AddFunction\<close> (upload and final save accepted) then succeeds and
  stores the record with status \<open>running\<close> and host port 0, and from that state every
  \<open>ExecuteFunction\<close> for the id fails with \<open>NotRunningError\<close> and changes nothing.
\<close>

theorem running_with_port_zero:
  assumes "\<forall>d f cp h r d'. docker_RunWorker c d f cp h = (Returns r, d') \<longrightarrow>
             RunWorker (orchestrator m) d f cp h = (Returns r, d')"
    and "ensureImage c (backend w) (WorkerImage (docker_cfg c)) = (None, w1)"
    and "ContainerRemove (cli c) (daemon w1) (''faas-worker-'' @ funcID)
           \<lparr>Force = True, RemoveVolumes = False\<rparr> = (r2, d2)"
    and "ContainerCreate (cli c) d2
           \<lparr>Image = WorkerImage (docker_cfg c),
            Env = [''HANDLER_FUNCTION='' @ ''function.handler.'' @ functionName],
            ExposedPorts = [''8000/tcp''],
            Binds = [codeDir_of m funcID @ '':/app/function''],
            PortBindings = [(''8000/tcp'', [\<lparr>HostIP = ''0.0.0.0'', pb_HostPort = []\<rparr>])],
            Name = ''faas-worker-'' @ funcID\<rparr> = (Inr respID, d3)"
    and "ContainerStart (cli c) d3 respID = (None, d4)"
    and "ContainerInspect (cli c) d4 respID = (Inr ports, d5)"
  shows "((ports ''8000/tcp'' = None \<or> ports ''8000/tcp'' = Some []) \<longrightarrow>
            fst (docker_RunWorker c (backend w) funcID (codeDir_of m funcID)
                   (''function.handler.'' @ functionName)) =
              Panics ''index out of range [0] with length 0'')
     \<and> (\<forall>b bs e.
           ports ''8000/tcp'' = Some (b # bs) \<and> strconv_Atoi (pb_HostPort b) = (0, Some e)
           \<and> upload_accepted m w funcID now functionName code
           \<and> db_fault w (DbSave ((new_Function m funcID now functionName)
                  \<lparr>ContainerID := respID, HostPort := 0, Status := ''running''\<rparr>)) = None \<longrightarrow>
           fst (docker_RunWorker c (backend w) funcID (codeDir_of m funcID)
                  (''function.handler.'' @ functionName)) =
             Returns (Inr \<lparr>rr_ContainerID = respID, rr_HostPort = 0\<rparr>)
           \<and> fst (AddFunction m w funcID now functionName code) =
               Returns (Inr ((new_Function m funcID now functionName)
                      \<lparr>ContainerID := respID, HostPort := 0, Status := ''running''\<rparr>))
           \<and> rows (snd (AddFunction m w funcID now functionName code)) =
               rows w @ [(new_Function m funcID now functionName)
                           \<lparr>ContainerID := respID, HostPort := 0, Status := ''running''\<rparr>]
           \<and> (db_fault w (DbFirst funcID) = None \<longrightarrow>
                (\<forall>payload.
                   ExecuteFunction lib m (snd (AddFunction m w funcID now functionName code))
                     funcID payload =
                   (Inl (NotRunningError funcID),
                    snd (AddFunction m w funcID now functionName code)))))"
proof (intro conjI allI impI)
  let ?cp = "codeDir_of m funcID"
  let ?hp = "''function.handler.'' @ functionName"
  note insp = docker_RunWorker_inspected [OF assms(2-6)]
  show "fst (docker_RunWorker c (backend w) funcID ?cp ?hp) =
          Panics ''index out of range [0] with length 0''"
    if "ports ''8000/tcp'' = None \<or> ports ''8000/tcp'' = Some []"
    using that insp by auto
  fix b bs e
  assume h: "ports ''8000/tcp'' = Some (b # bs) \<and> strconv_Atoi (pb_HostPort b) = (0, Some e)
           \<and> upload_accepted m w funcID now functionName code
           \<and> db_fault w (DbSave ((new_Function m funcID now functionName)
                  \<lparr>ContainerID := respID, HostPort := 0, Status := ''running''\<rparr>)) = None"
  let ?fn = "new_Function m funcID now functionName"
  let ?fn1 = "?fn\<lparr>ContainerID := respID, HostPort := 0, Status := ''running''\<rparr>"
  let ?rr = "\<lparr>rr_ContainerID = respID, rr_HostPort = 0\<rparr>"
  let ?A = "AddFunction m w funcID now functionName code"
  have up: "upload_accepted m w funcID now functionName code" using h by simp
  have fresh: "list_all (\<lambda>r. ID r \<noteq> funcID) (rows w)"
    using up by (simp add: upload_accepted_def)
  have fn: "ID ?fn = funcID" "CodePath ?fn = ?cp" "HandlerPath ?fn = ?hp"
    by (simp_all add: new_Function_def)
  show ret: "fst (docker_RunWorker c (backend w) funcID ?cp ?hp) = Returns (Inr ?rr)"
    using h insp by simp
  then obtain d' where "docker_RunWorker c (backend w) funcID ?cp ?hp = (Returns (Inr ?rr), d')"
    by (metis prod.collapse)
  then have run: "RunWorker (orchestrator m) (backend w) funcID ?cp ?hp = (Returns (Inr ?rr), d')"
    using assms(1) by blast
  have A: "?A =
      (Returns (Inr ?fn1),
       w\<lparr>files := (files w)(codeFilePath_of m funcID \<mapsto> code), rows := rows w @ [?fn1],
         backend := d',
         events := events w @ [CalledRunWorker funcID ?cp ?hp (Returns (Inr ?rr))]\<rparr>)"
    using run h fresh fn(1)
    by (simp add: add_reaches_provisioning [OF up] call_RunWorker_def fn Let_def db_Save_def
        replace_absent list_all_iff list_ex_iff)
  show "fst ?A = Returns (Inr ?fn1)" using A by simp
  show "rows (snd ?A) = rows w @ [?fn1]" using A by simp
  show "ExecuteFunction lib m (snd ?A) funcID payload = (Inl (NotRunningError funcID), snd ?A)"
    if "db_fault w (DbFirst funcID) = None" for payload
  proof -
    have "db_First (snd ?A) funcID = Inr ?fn1"
      using that A First_last [OF fresh, of ?fn1] fn(1) by (simp add: db_First_def)
    then show ?thesis by (simp add: ExecuteFunction_def)
  qed
qed

text \<open>
  A daemon that lists no binding makes the adapter panic; a daemon that lists the binding
  with an empty host port gives a running record with port 0 that cannot be executed.
\<close>

theorem running_with_port_zero_witness:
  "fst (docker_RunWorker (client_of daemon_without_ports) (backend world_docker) ''f7''
          (codeDir_of (mgr_docker daemon_without_ports) ''f7'') ''function.handler.echo'') =
     Panics ''index out of range [0] with length 0''
   \<and> strconv_Atoi [] = (0, Some (External ''strconv.Atoi: invalid syntax''))
   \<and> upload_accepted (mgr_docker (daemon_with_port [])) world_docker ''f7'' 7 ''echo''
         ''def echo(p): return p''
   \<and> map_outcome (map_sum id (\<lambda>fn. (ID fn, ContainerID fn, HostPort fn, Status fn)))
         (fst (AddFunction (mgr_docker (daemon_with_port [])) world_docker ''f7'' 7 ''echo''
                 ''def echo(p): return p'')) =
       Returns (Inr (''f7'', ''c0ffee'', 0, ''running''))
   \<and> ExecuteFunction lib0 (mgr_docker (daemon_with_port []))
         (snd (AddFunction (mgr_docker (daemon_with_port [])) world_docker ''f7'' 7 ''echo''
                 ''def echo(p): return p'')) ''f7'' ''{}'' =
       (Inl (NotRunningError ''f7''),
        snd (AddFunction (mgr_docker (daemon_with_port [])) world_docker ''f7'' 7 ''echo''
               ''def echo(p): return p''))"
proof -
  let ?m = "mgr_docker (daemon_with_port [])"
  let ?m' = "mgr_docker daemon_without_ports"
  let ?b = "\<lparr>HostIP = ''0.0.0.0'', pb_HostPort = []\<rparr>"
  have i: "\<forall>d f cp h r d'. docker_RunWorker (client_of (daemon_with_port [])) d f cp h = (Returns r, d') \<longrightarrow>
     RunWorker (orchestrator ?m) d f cp h = (Returns r, d')"
    by (simp add: mgr_docker_def docker_orchestrator_def)
  have i': "\<forall>d f cp h r d'. docker_RunWorker (client_of daemon_without_ports) d f cp h = (Returns r, d') \<longrightarrow>
     RunWorker (orchestrator ?m') d f cp h = (Returns r, d')"
    by (simp add: mgr_docker_def docker_orchestrator_def)
  have a: "strconv_Atoi [] = (0, Some (External ''strconv.Atoi: invalid syntax''))"
    by (simp add: strconv_Atoi_def)
  have u: "upload_accepted ?m world_docker ''f7'' 7 ''echo'' ''def echo(p): return p''"
    by (simp add: upload_accepted_def world_docker_def)
  note t = running_with_port_zero [where c = "client_of (daemon_with_port [])" and m = ?m
      and w = world_docker and ?w1.0 = "backend world_docker" and funcID = "''f7''"
      and ?r2.0 = "Some NotFound" and ?d2.0 = "()" and functionName = "''echo''"
      and respID = "''c0ffee''" and ?d3.0 = "()" and ?d4.0 = "()" and ?d5.0 = "()"
      and ports = "[''8000/tcp'' \<mapsto> [?b]]" and now = 7 and code = "''def echo(p): return p''"
      and lib = lib0, OF i]
  note t' = running_with_port_zero [where c = "client_of daemon_without_ports" and m = ?m'
      and w = world_docker and ?w1.0 = "backend world_docker" and funcID = "''f7''"
      and ?r2.0 = "Some NotFound" and ?d2.0 = "()" and functionName = "''echo''"
      and respID = "''c0ffee''" and ?d3.0 = "()" and ?d4.0 = "()" and ?d5.0 = "()"
      and ports = "Map.empty" and now = 7 and code = "''def echo(p): return p''"
      and lib = lib0, OF i']
  have p: "fst (docker_RunWorker (client_of daemon_without_ports) (backend world_docker) ''f7''
          (codeDir_of ?m' ''f7'') ''function.handler.echo'') =
     Panics ''index out of range [0] with length 0''"
    using t' by (simp add: ensureImage_def client_of_def daemon_without_ports_def
        daemon_with_port_def world_docker_def)
  have s: "db_fault world_docker (DbSave fn) = None" "db_fault world_docker (DbFirst i) = None" for fn i
    by (simp_all add: world_docker_def)
  have q: "fst (AddFunction ?m world_docker ''f7'' 7 ''echo'' ''def echo(p): return p'') =
               Returns (Inr ((new_Function ?m ''f7'' 7 ''echo'')
                      \<lparr>ContainerID := ''c0ffee'', HostPort := 0, Status := ''running''\<rparr>))
       \<and> (\<forall>payload. ExecuteFunction lib0 ?m
         (snd (AddFunction ?m world_docker ''f7'' 7 ''echo'' ''def echo(p): return p'')) ''f7'' payload =
       (Inl (NotRunningError ''f7''),
        snd (AddFunction ?m world_docker ''f7'' 7 ''echo'' ''def echo(p): return p'')))"
    using t a u s
    by (simp add: ensureImage_def client_of_def daemon_with_port_def world_docker_def)
  show ?thesis using p a u q by (simp add: new_Function_def)
qed


text \<open>
  With the daemon that lists no binding, \<open>AddFunction\<close> on the Docker adapter ends with
  the panic of \<open>RunWorker\<close>: the record stays stored with status \<open>creating\<close> and
  nothing is logged by the manager.
\<close>

lemma add_function_without_binding_panics:
  "fst (AddFunction (mgr_docker daemon_without_ports) world_docker ''f7'' 7 ''echo''
          ''def echo(p): return p'') = Panics ''index out of range [0] with length 0''
   \<and> map (\<lambda>r. (ID r, Status r))
         (rows (snd (AddFunction (mgr_docker daemon_without_ports) world_docker ''f7'' 7 ''echo''
                  ''def echo(p): return p''))) = [(''f7'', ''creating'')]
   \<and> logged (events (snd (AddFunction (mgr_docker daemon_without_ports) world_docker ''f7'' 7
                  ''echo'' ''def echo(p): return p''))) = []"
proof -
  let ?m = "mgr_docker daemon_without_ports"
  have u: "upload_accepted ?m world_docker ''f7'' 7 ''echo'' ''def echo(p): return p''"
    by (simp add: upload_accepted_def world_docker_def)
  have r: "RunWorker (orchestrator ?m) (backend world_docker) ''f7'' (codeDir_of ?m ''f7'')
             (''function.handler.'' @ ''echo'') =
           (Panics ''index out of range [0] with length 0'', backend world_docker)"
    by (simp add: mgr_docker_def docker_orchestrator_def docker_RunWorker_def ensureImage_def
        client_of_def daemon_without_ports_def daemon_with_port_def world_docker_def Let_def)
  show ?thesis
    unfolding add_function_provisioning_panics [OF u r]
    by (simp add: new_Function_def world_docker_def)
qed
section \<open>The request sent by ExecuteFunction\<close>

lemma json_chars_plain:
  "c \<noteq> CHR 0x5C \<Longrightarrow> c \<noteq> CHR 0x22 \<Longrightarrow> \<not> (of_char c :: nat) < 0x20 \<Longrightarrow>
   json_chars (c # cs) = map_option ((#) c) (json_chars cs)"
  by (cases cs) simp_all

lemma json_safe_ascii: "json_safe c \<Longrightarrow> is_ascii c"
  by (auto simp: json_safe_def is_ascii_def)

lemma json_chars_quote_ascii:
  assumes "json_safe c"
  shows "json_chars (quote_ascii c @ rest) = map_option ((#) c) (json_chars rest)"
proof -
  consider "c = CHR 0x22 \<or> c = CHR 0x5C"
    | "c \<noteq> CHR 0x22" "c \<noteq> CHR 0x5C" "0x20 \<le> (of_char c :: nat)" "(of_char c :: nat) < 0x7F"
    | "c = CHR 0x08" | "c = CHR 0x09" | "c = CHR 0x0A" | "c = CHR 0x0C" | "c = CHR 0x0D"
    using assms by (auto simp: json_safe_def)
  then show ?thesis
  proof cases
    case 1
    then show ?thesis by (auto simp: quote_ascii_def json_escape_def)
  next
    case 2
    then show ?thesis by (simp add: quote_ascii_def json_chars_plain)
  next
    case 3
    then show ?thesis by (simp add: quote_ascii_def json_escape_def)
  next
    case 4
    then show ?thesis by (simp add: quote_ascii_def json_escape_def)
  next
    case 5
    then show ?thesis by (simp add: quote_ascii_def json_escape_def)
  next
    case 6
    then show ?thesis by (simp add: quote_ascii_def json_escape_def)
  next
    case 7
    then show ?thesis by (simp add: quote_ascii_def json_escape_def)
  qed
qed

lemma json_chars_quote_runes:
  "list_all json_safe p \<Longrightarrow> json_chars (quote_runes hi p) = Some p"
proof (induction p)
  case Nil
  show ?case by simp
next
  case (Cons c p)
  then have "json_safe c" "is_ascii c" "json_chars (quote_runes hi p) = Some p"
    by (simp_all add: json_safe_ascii)
  then show ?case by (simp add: json_chars_quote_ascii)
qed

lemma json_string_Quote:
  "list_all json_safe p \<Longrightarrow> json_string (strconv_Quote hi p) = Some p"
  by (simp add: json_string_def strconv_Quote_def json_chars_quote_runes)

text \<open>
  An ASCII character outside those is the bell, the vertical tab, another control
  character or the delete character: \<^verbatim>\<open>strconv.Quote\<close> writes it with the escape
  letter \<open>a\<close>, \<open>v\<close> or \<open>x\<close>, which JSON does not have.
\<close>

lemma json_safe_quote: "json_safe (CHR 0x22)" "json_safe (CHR 0x5C)"
  by (simp_all add: json_safe_def)

lemma json_chars_quote_ascii_unsafe:
  assumes "\<not> json_safe c"
  shows "json_chars (quote_ascii c @ rest) = None"
proof -
  have q: "c \<noteq> CHR 0x22" "c \<noteq> CHR 0x5C"
    using assms json_safe_quote by blast+
  have p: "\<not> (0x20 \<le> (of_char c :: nat) \<and> (of_char c :: nat) < 0x7F)"
    using assms unfolding json_safe_def by blast
  have n: "c \<noteq> CHR 0x08" "c \<noteq> CHR 0x09" "c \<noteq> CHR 0x0A" "c \<noteq> CHR 0x0C" "c \<noteq> CHR 0x0D"
    using assms unfolding json_safe_def by blast+
  have "quote_ascii c =
      (if c = CHR 0x07 then [CHR 0x5C, CHR ''a'']
       else if c = CHR 0x0B then [CHR 0x5C, CHR ''v'']
       else [CHR 0x5C, CHR ''x'', hex_char (of_char c div 16), hex_char (of_char c mod 16)])"
    unfolding quote_ascii_def using q p n by (simp only: if_False simp_thms)
  then show ?thesis by (simp add: json_escape_def)
qed

lemma json_chars_quote_runes_unsafe:
  "list_all is_ascii p \<Longrightarrow> \<not> list_all json_safe p \<Longrightarrow> json_chars (quote_runes hi p) = None"
proof (induction p)
  case Nil
  then show ?case by simp
next
  case (Cons c p)
  show ?case
  proof (cases "json_safe c")
    case True
    then have "json_chars (quote_runes hi p) = None" using Cons by simp
    then show ?thesis using True Cons.prems(1) by (simp add: json_chars_quote_ascii)
  next
    case False
    then show ?thesis using Cons.prems(1) by (simp add: json_chars_quote_ascii_unsafe)
  qed
qed

lemma json_string_Quote_unsafe:
  "list_all is_ascii p \<Longrightarrow> \<not> list_all json_safe p \<Longrightarrow> json_string (strconv_Quote hi p) = None"
  by (simp add: json_string_def strconv_Quote_def json_chars_quote_runes_unsafe)


text \<open>The URL of a positive port is accepted by \<open>http_NewRequest\<close>.\<close>

lemma is_digit_digit_char: "d < 10 \<Longrightarrow> is_digit (digit_char d)"
proof -
  have "\<forall>d<10. is_digit (digit_char d)"
    by (simp add: numeral_eq_Suc All_less_Suc digit_char_def is_digit_def)
  then show "d < 10 \<Longrightarrow> is_digit (digit_char d)" by simp
qed

lemma itoa_nat_digits: "list_all is_digit (itoa_nat n)"
proof (induction n rule: itoa_nat.induct)
  case (1 n)
  show ?case
  proof (cases "n < 10")
    case True
    then show ?thesis by (subst itoa_nat.simps) (simp add: is_digit_digit_char)
  next
    case False
    then have "list_all is_digit (itoa_nat (n div 10))" using 1 by simp
    moreover have "is_digit (digit_char (n mod 10))" by (simp add: is_digit_digit_char)
    ultimately show ?thesis using False by (subst itoa_nat.simps) simp
  qed
qed

lemma digit_not_colon: "is_digit c \<Longrightarrow> c \<noteq> CHR '':''"
  by (auto simp: is_digit_def)

lemma after_last_colon_port:
  assumes "list_all is_digit ds"
  shows "after_last_colon (''http://localhost:'' @ ds) = ds"
proof -
  have "\<forall>c\<in>set (rev ds). c \<noteq> CHR '':''"
    using assms by (auto simp: list_all_iff digit_not_colon)
  then have "takeWhile (\<lambda>c. c \<noteq> CHR '':'') (rev ds @ CHR '':'' # rev ''http://localhost'') =
      rev ds @ takeWhile (\<lambda>c. c \<noteq> CHR '':'') (CHR '':'' # rev ''http://localhost'')"
    by (intro takeWhile_append2) simp
  then have "takeWhile (\<lambda>c. c \<noteq> CHR '':'') (rev (''http://localhost:'' @ ds)) = rev ds"
    by simp
  then show ?thesis unfolding after_last_colon_def by simp
qed

lemma new_request_positive_port:
  "0 < p \<Longrightarrow>
   http_NewRequest method (''http://localhost:'' @ itoa p) body =
     Inr \<lparr>Method = method, URL = ''http://localhost:'' @ itoa p, Header = [], Body = body\<rparr>"
  using after_last_colon_port [OF itoa_nat_digits, of "nat p"] itoa_nat_digits [of "nat p"]
  by (simp add: http_NewRequest_def itoa_def)

text \<open>
  The request of \<open>ExecuteFunction\<close>.  For a record that is \<open>running\<close> with a
  positive host port and for every payload, \<open>ExecuteFunction\<close> sends exactly one HTTP
  request: a \<open>POST\<close> to \<open>http://localhost:<port>\<close> with the header
  \<open>Content-Type: application/json\<close>, whose body is the object with the one member
  \<open>payload\<close>, its value being the payload as quoted by the verb \<open>%q\<close>
  (\<open>strconv.Quote\<close>).
\<close>

lemma execute_request:
  assumes \<open>db_First w functionID = Inr fn\<close> and \<open>Status fn = ''running''\<close> and \<open>0 < HostPort fn\<close>
  shows \<open>requests (events (snd (ExecuteFunction lib m w functionID payload))) =
           requests (events w) @
           [\<lparr>Method = ''POST'',
             URL = ''http://localhost:'' @ itoa (HostPort fn),
             Header = [(''Content-Type'', ''application/json'')],
             Body = ''{"payload": '' @ strconv_Quote (quote_non_ascii lib) payload @ ''}''\<rparr>]\<close>
  using assms
    new_request_positive_port [of "HostPort fn" "''POST''"
      \<open>''{"payload": '' @ strconv_Quote (quote_non_ascii lib) payload @ ''}''\<close>]
  by (simp add: ExecuteFunction_def http_Do_def requests_append
      Let_def split: http_reply.splits sum.splits prod.splits)

text \<open>
  For a payload of printable ASCII characters, backspace, tab, newline, form feed and
  carriage return, the value of the member is a JSON string literal, and a JSON reader
  decodes it to the payload, character for character; so it is for the payload
  \<open>{"x":1}\<close> sent to the record \<open>f3\<close>.
\<close>

lemma execute_request_round_trip:
  assumes \<open>db_First w functionID = Inr fn\<close> and \<open>Status fn = ''running''\<close> and \<open>0 < HostPort fn\<close>
    and \<open>list_all json_safe payload\<close>
  shows \<open>\<exists>q lit. requests (events (snd (ExecuteFunction lib m w functionID payload))) =
                    requests (events w) @ [q]
           \<and> Body q = ''{"payload": '' @ lit @ ''}'' \<and> json_string lit = Some payload\<close>
  using execute_request [OF assms(1-3), of lib m payload] json_string_Quote [OF assms(4)]
  by simp

lemma execute_request_round_trip_example:
  \<open>map Body (requests (events (snd (ExecuteFunction lib0 mgr0 world0 ''f3'' ''{"x":1}'')))) =
     [''{"payload": "{'' @ [CHR 0x5C] @ ''"x'' @ [CHR 0x5C] @ ''":1}"}'']
   \<and> json_string (''"{'' @ [CHR 0x5C] @ ''"x'' @ [CHR 0x5C] @ ''":1}"'') = Some ''{"x":1}''\<close>
  by (simp add: ExecuteFunction_def db_First_def http_NewRequest_def after_last_colon_def
      http_Do_def itoa_def itoa_nat.simps digit_char_def is_digit_def strconv_Quote_def
      quote_ascii_def is_ascii_def json_string_def json_escape_def world0_def mgr0_def lib0_def
      fn1_def fn2_def fn3_def Let_def)

text \<open>
  C8.  Every payload string must arrive at the worker unchanged inside the member
  \<open>payload\<close> of the JSON body.  It does not when the payload is made of ASCII
  characters and one of them is a control character other than backspace, tab, newline,
  form feed and carriage return, or is the delete character: \<open>ExecuteFunction\<close> sends
  the request, with the content type of JSON, and the value of the member \<open>payload\<close>
  in its body, written with the verb \<open>%q\<close>, is not a JSON string literal, so that no
  JSON reader finds the payload in it.
\<close>

theorem execute_request_body_not_json:
  assumes \<open>db_First w functionID = Inr fn\<close> and \<open>Status fn = ''running''\<close> and \<open>0 < HostPort fn\<close>
    and \<open>list_all is_ascii payload\<close> and \<open>\<not> list_all json_safe payload\<close>
  shows \<open>requests (events (snd (ExecuteFunction lib m w functionID payload))) =
           requests (events w) @
           [\<lparr>Method = ''POST'',
             URL = ''http://localhost:'' @ itoa (HostPort fn),
             Header = [(''Content-Type'', ''application/json'')],
             Body = ''{"payload": '' @ strconv_Quote (quote_non_ascii lib) payload @ ''}''\<rparr>]
       \<and> json_string (strconv_Quote (quote_non_ascii lib) payload) = None\<close>
  using execute_request [OF assms(1-3), of lib m payload] json_string_Quote_unsafe [OF assms(4,5)]
  by simp

text \<open>
  The record \<open>f3\<close> is running on port 32770 and the payload is the one byte 0x01: the
  body sent is \<open>{"payload": "\x01"}\<close>, and \<open>"\x01"\<close> is not a JSON string literal.
\<close>

theorem execute_request_body_not_json_witness:
  \<open>db_First world0 ''f3'' = Inr fn3 \<and> Status fn3 = ''running'' \<and> 0 < HostPort fn3
   \<and> list_all is_ascii [CHR 0x01] \<and> list_all json_safe [CHR 0x01] = False
   \<and> requests (events (snd (ExecuteFunction lib0 mgr0 world0 ''f3'' [CHR 0x01]))) =
       [\<lparr>Method = ''POST'',
         URL = ''http://localhost:32770'',
         Header = [(''Content-Type'', ''application/json'')],
         Body = ''{"payload": "'' @ [CHR 0x5C] @ ''x01"}''\<rparr>]
   \<and> json_string (''"'' @ [CHR 0x5C] @ ''x01"'') = None\<close>
  using execute_request_body_not_json [of world0 "''f3''" fn3 "[CHR 0x01]" lib0 mgr0]
  by (simp add: db_First_def world0_def fn1_def fn2_def fn3_def json_safe_def is_ascii_def
      itoa_def itoa_nat.simps digit_char_def strconv_Quote_def quote_ascii_def hex_char_def)

end
